theory Spec2Isabelle
  imports Complex_Main "HOL-Library.AList" "HOL-Library.Sublist"
begin

section \<open>Strings\<close>

text \<open>
  A JavaScript string is modelled as a \<^typ>\<open>string\<close> holding its UTF-8 encoding: the
  program only compares, concatenates and joins the non-ASCII texts, and these
  operations commute with the encoding. The Japanese texts of the source are
  named once here, each with its meaning in a comment.
\<close>

definition ja_unknown :: string where \<comment> \<open>U+4E0D U+660E, "unknown"\<close>
  "ja_unknown = [CHR 0xE4, CHR 0xB8, CHR 0x8D, CHR 0xE6, CHR 0x98, CHR 0x8E]"

definition ja_abnormal :: string where \<comment> \<open>U+7570 U+5E38, "abnormal"\<close>
  "ja_abnormal = [CHR 0xE7, CHR 0x95, CHR 0xB0, CHR 0xE5, CHR 0xB8, CHR 0xB8]"

definition ja_shindo :: string where \<comment> \<open>U+9707 U+5EA6, "seismic intensity"\<close>
  "ja_shindo = [CHR 0xE9, CHR 0x9C, CHR 0x87, CHR 0xE5, CHR 0xBA, CHR 0xA6]"

definition ja_weak :: string where \<comment> \<open>U+5F31, "weak" (lower)\<close>
  "ja_weak = [CHR 0xE5, CHR 0xBC, CHR 0xB1]"

definition ja_strong :: string where \<comment> \<open>U+5F37, "strong" (upper)\<close>
  "ja_strong = [CHR 0xE5, CHR 0xBC, CHR 0xB7]"

named_theorems ja_defs \<open>the byte sequences of the Japanese words\<close>

declare ja_unknown_def [ja_defs] ja_abnormal_def [ja_defs] ja_shindo_def [ja_defs]
  ja_weak_def [ja_defs] ja_strong_def [ja_defs]

definition ja_quake_info :: string where \<comment> \<open>"earthquake information"\<close>
  "ja_quake_info =
    [CHR 0xE5, CHR 0x9C, CHR 0xB0, CHR 0xE9, CHR 0x9C, CHR 0x87,
     CHR 0xE6, CHR 0x83, CHR 0x85, CHR 0xE5, CHR 0xA0, CHR 0xB1]"

definition ja_quake_occurred :: string where \<comment> \<open>"an earthquake has occurred"\<close>
  "ja_quake_occurred =
    [CHR 0xE5, CHR 0x9C, CHR 0xB0, CHR 0xE9, CHR 0x9C, CHR 0x87,
     CHR 0xE3, CHR 0x81, CHR 0x8C, CHR 0xE7, CHR 0x99, CHR 0xBA,
     CHR 0xE7, CHR 0x94, CHR 0x9F, CHR 0xE3, CHR 0x81, CHR 0x97,
     CHR 0xE3, CHR 0x81, CHR 0xBE, CHR 0xE3, CHR 0x81, CHR 0x97,
     CHR 0xE3, CHR 0x81, CHR 0x9F]"

definition ja_occurrence_time :: string where \<comment> \<open>"time of occurrence"\<close>
  "ja_occurrence_time =
    [CHR 0xE7, CHR 0x99, CHR 0xBA, CHR 0xE7, CHR 0x94, CHR 0x9F,
     CHR 0xE6, CHR 0x99, CHR 0x82, CHR 0xE5, CHR 0x88, CHR 0xBB]"

definition ja_epicenter :: string where \<comment> \<open>"epicentre"\<close>
  "ja_epicenter =
    [CHR 0xE9, CHR 0x9C, CHR 0x87, CHR 0xE6, CHR 0xBA, CHR 0x90,
     CHR 0xE5, CHR 0x9C, CHR 0xB0]"

definition ja_magnitude :: string where \<comment> \<open>"magnitude"\<close>
  "ja_magnitude =
    [CHR 0xE3, CHR 0x83, CHR 0x9E, CHR 0xE3, CHR 0x82, CHR 0xB0,
     CHR 0xE3, CHR 0x83, CHR 0x8B, CHR 0xE3, CHR 0x83, CHR 0x81,
     CHR 0xE3, CHR 0x83, CHR 0xA5, CHR 0xE3, CHR 0x83, CHR 0xBC,
     CHR 0xE3, CHR 0x83, CHR 0x89]"

definition ja_depth :: string where \<comment> \<open>"depth"\<close>
  "ja_depth =
    [CHR 0xE6, CHR 0xB7, CHR 0xB1, CHR 0xE3, CHR 0x81, CHR 0x95]"

definition ja_approx :: string where \<comment> \<open>"approximately"\<close>
  "ja_approx =
    [CHR 0xE7, CHR 0xB4, CHR 0x84]"

definition ja_tsunami :: string where \<comment> \<open>"tsunami"\<close>
  "ja_tsunami =
    [CHR 0xE6, CHR 0xB4, CHR 0xA5, CHR 0xE6, CHR 0xB3, CHR 0xA2]"

definition ja_shindo_by_place :: string where \<comment> \<open>"intensity at each place"\<close>
  "ja_shindo_by_place =
    [CHR 0xE5, CHR 0x90, CHR 0x84, CHR 0xE5, CHR 0x9C, CHR 0xB0,
     CHR 0xE3, CHR 0x81, CHR 0xAE, CHR 0xE9, CHR 0x9C, CHR 0x87,
     CHR 0xE5, CHR 0xBA, CHR 0xA6]"

definition ja_release_time :: string where \<comment> \<open>"time the information was issued"\<close>
  "ja_release_time =
    [CHR 0xE6, CHR 0x83, CHR 0x85, CHR 0xE5, CHR 0xA0, CHR 0xB1,
     CHR 0xE7, CHR 0x99, CHR 0xBA, CHR 0xE8, CHR 0xA1, CHR 0xA8,
     CHR 0xE6, CHR 0x99, CHR 0x82, CHR 0xE5, CHR 0x88, CHR 0xBB]"

definition ja_provided_by :: string where \<comment> \<open>"provided by"\<close>
  "ja_provided_by =
    [CHR 0xE6, CHR 0x8F, CHR 0x90, CHR 0xE4, CHR 0xBE, CHR 0x9B]"

definition ja_max_shindo :: string where \<comment> \<open>"maximum intensity"\<close>
  "ja_max_shindo =
    [CHR 0xE6, CHR 0x9C, CHR 0x80, CHR 0xE5, CHR 0xA4, CHR 0xA7,
     CHR 0xE9, CHR 0x9C, CHR 0x87, CHR 0xE5, CHR 0xBA, CHR 0xA6]"

definition ja_list_comma :: string where \<comment> \<open>the ideographic comma\<close>
  "ja_list_comma =
    [CHR 0xE3, CHR 0x80, CHR 0x81]"

definition ja_other :: string where \<comment> \<open>"and other"\<close>
  "ja_other =
    [CHR 0xE4, CHR 0xBB, CHR 0x96]"

definition ja_places :: string where \<comment> \<open>"places"\<close>
  "ja_places =
    [CHR 0xE7, CHR 0xAE, CHR 0x87, CHR 0xE6, CHR 0x89, CHR 0x80]"

definition ja_year :: string where \<comment> \<open>"year"\<close>
  "ja_year =
    [CHR 0xE5, CHR 0xB9, CHR 0xB4]"

definition ja_month :: string where \<comment> \<open>"month"\<close>
  "ja_month =
    [CHR 0xE6, CHR 0x9C, CHR 0x88]"

definition ja_day :: string where \<comment> \<open>"day"\<close>
  "ja_day =
    [CHR 0xE6, CHR 0x97, CHR 0xA5]"

definition ja_hour :: string where \<comment> \<open>"hour"\<close>
  "ja_hour =
    [CHR 0xE6, CHR 0x99, CHR 0x82]"

definition ja_minute :: string where \<comment> \<open>"minute"\<close>
  "ja_minute =
    [CHR 0xE5, CHR 0x88, CHR 0x86]"

definition ja_none :: string where \<comment> \<open>"none"\<close>
  "ja_none =
    [CHR 0xE3, CHR 0x81, CHR 0xAA, CHR 0xE3, CHR 0x81, CHR 0x97]"

definition ja_checking :: string where \<comment> \<open>"under investigation"\<close>
  "ja_checking =
    [CHR 0xE8, CHR 0xAA, CHR 0xBF, CHR 0xE6, CHR 0x9F, CHR 0xBB,
     CHR 0xE4, CHR 0xB8, CHR 0xAD]"

definition ja_non_effective :: string where \<comment> \<open>"slight sea-level change (no damage expected)"\<close>
  "ja_non_effective =
    [CHR 0xE8, CHR 0x8B, CHR 0xA5, CHR 0xE5, CHR 0xB9, CHR 0xB2,
     CHR 0xE3, CHR 0x81, CHR 0xAE, CHR 0xE6, CHR 0xB5, CHR 0xB7,
     CHR 0xE9, CHR 0x9D, CHR 0xA2, CHR 0xE5, CHR 0xA4, CHR 0x89,
     CHR 0xE5, CHR 0x8B, CHR 0x95, CHR 0xEF, CHR 0xBC, CHR 0x88,
     CHR 0xE8, CHR 0xA2, CHR 0xAB, CHR 0xE5, CHR 0xAE, CHR 0xB3,
     CHR 0xE3, CHR 0x81, CHR 0xAE, CHR 0xE5, CHR 0xBF, CHR 0x83,
     CHR 0xE9, CHR 0x85, CHR 0x8D, CHR 0xE3, CHR 0x81, CHR 0xAA,
     CHR 0xE3, CHR 0x81, CHR 0x97, CHR 0xEF, CHR 0xBC, CHR 0x89]"

definition ja_tsunami_advisory :: string where \<comment> \<open>"tsunami advisory"\<close>
  "ja_tsunami_advisory =
    [CHR 0xE6, CHR 0xB4, CHR 0xA5, CHR 0xE6, CHR 0xB3, CHR 0xA2,
     CHR 0xE6, CHR 0xB3, CHR 0xA8, CHR 0xE6, CHR 0x84, CHR 0x8F,
     CHR 0xE5, CHR 0xA0, CHR 0xB1]"

definition ja_tsunami_warning :: string where \<comment> \<open>"tsunami warning"\<close>
  "ja_tsunami_warning =
    [CHR 0xE6, CHR 0xB4, CHR 0xA5, CHR 0xE6, CHR 0xB3, CHR 0xA2,
     CHR 0xE8, CHR 0xAD, CHR 0xA6, CHR 0xE5, CHR 0xA0, CHR 0xB1]"

definition ja_major_tsunami_warning :: string where \<comment> \<open>"major tsunami warning"\<close>
  "ja_major_tsunami_warning =
    [CHR 0xE5, CHR 0xA4, CHR 0xA7, CHR 0xE6, CHR 0xB4, CHR 0xA5,
     CHR 0xE6, CHR 0xB3, CHR 0xA2, CHR 0xE8, CHR 0xAD, CHR 0xA6,
     CHR 0xE5, CHR 0xA0, CHR 0xB1]"

definition ja_tsunami_info :: string where \<comment> \<open>"tsunami information"\<close>
  "ja_tsunami_info =
    [CHR 0xE6, CHR 0xB4, CHR 0xA5, CHR 0xE6, CHR 0xB3, CHR 0xA2,
     CHR 0xE6, CHR 0x83, CHR 0x85, CHR 0xE5, CHR 0xA0, CHR 0xB1]"

definition ja_tsunami_issued :: string where \<comment> \<open>"tsunami information has been issued"\<close>
  "ja_tsunami_issued =
    [CHR 0xE6, CHR 0xB4, CHR 0xA5, CHR 0xE6, CHR 0xB3, CHR 0xA2,
     CHR 0xE6, CHR 0x83, CHR 0x85, CHR 0xE5, CHR 0xA0, CHR 0xB1,
     CHR 0xE3, CHR 0x81, CHR 0x8C, CHR 0xE7, CHR 0x99, CHR 0xBA,
     CHR 0xE8, CHR 0xA1, CHR 0xA8, CHR 0xE3, CHR 0x81, CHR 0x95,
     CHR 0xE3, CHR 0x82, CHR 0x8C, CHR 0xE3, CHR 0x81, CHR 0xBE,
     CHR 0xE3, CHR 0x81, CHR 0x97, CHR 0xE3, CHR 0x81, CHR 0x9F]"

definition ja_tsunami_lifted :: string where \<comment> \<open>"this tsunami information has been cancelled"\<close>
  "ja_tsunami_lifted =
    [CHR 0xE3, CHR 0x81, CHR 0x93, CHR 0xE3, CHR 0x81, CHR 0xAE,
     CHR 0xE6, CHR 0xB4, CHR 0xA5, CHR 0xE6, CHR 0xB3, CHR 0xA2,
     CHR 0xE6, CHR 0x83, CHR 0x85, CHR 0xE5, CHR 0xA0, CHR 0xB1,
     CHR 0xE3, CHR 0x81, CHR 0xAF, CHR 0xE8, CHR 0xA7, CHR 0xA3,
     CHR 0xE9, CHR 0x99, CHR 0xA4, CHR 0xE3, CHR 0x81, CHR 0x95,
     CHR 0xE3, CHR 0x82, CHR 0x8C, CHR 0xE3, CHR 0x81, CHR 0xBE,
     CHR 0xE3, CHR 0x81, CHR 0x97, CHR 0xE3, CHR 0x81, CHR 0x9F]"

definition ja_warning_sign :: string where \<comment> \<open>the warning sign with its variation selector\<close>
  "ja_warning_sign =
    [CHR 0xE2, CHR 0x9A, CHR 0xA0, CHR 0xEF, CHR 0xB8, CHR 0x8F]"

definition ja_evacuate_now :: string where \<comment> \<open>"evacuate immediately"\<close>
  "ja_evacuate_now =
    [CHR 0xE7, CHR 0x9B, CHR 0xB4, CHR 0xE3, CHR 0x81, CHR 0xA1,
     CHR 0xE3, CHR 0x81, CHR 0xAB, CHR 0xE9, CHR 0x81, CHR 0xBF,
     CHR 0xE9, CHR 0x9B, CHR 0xA3]"

definition ja_tsunami_forecast_area :: string where \<comment> \<open>"tsunami forecast areas"\<close>
  "ja_tsunami_forecast_area =
    [CHR 0xE6, CHR 0xB4, CHR 0xA5, CHR 0xE6, CHR 0xB3, CHR 0xA2,
     CHR 0xE4, CHR 0xBA, CHR 0x88, CHR 0xE5, CHR 0xA0, CHR 0xB1,
     CHR 0xE5, CHR 0x8C, CHR 0xBA]"

definition ja_eew :: string where \<comment> \<open>"earthquake early warning"\<close>
  "ja_eew =
    [CHR 0xE7, CHR 0xB7, CHR 0x8A, CHR 0xE6, CHR 0x80, CHR 0xA5,
     CHR 0xE5, CHR 0x9C, CHR 0xB0, CHR 0xE9, CHR 0x9C, CHR 0x87,
     CHR 0xE9, CHR 0x80, CHR 0x9F, CHR 0xE5, CHR 0xA0, CHR 0xB1]"

definition ja_eew_cancel :: string where \<comment> \<open>"earthquake early warning (cancel)"\<close>
  "ja_eew_cancel =
    [CHR 0xE7, CHR 0xB7, CHR 0x8A, CHR 0xE6, CHR 0x80, CHR 0xA5,
     CHR 0xE5, CHR 0x9C, CHR 0xB0, CHR 0xE9, CHR 0x9C, CHR 0x87,
     CHR 0xE9, CHR 0x80, CHR 0x9F, CHR 0xE5, CHR 0xA0, CHR 0xB1,
     CHR 0xEF, CHR 0xBC, CHR 0x88, CHR 0xE3, CHR 0x82, CHR 0xAD,
     CHR 0xE3, CHR 0x83, CHR 0xA3, CHR 0xE3, CHR 0x83, CHR 0xB3,
     CHR 0xE3, CHR 0x82, CHR 0xBB, CHR 0xE3, CHR 0x83, CHR 0xAB,
     CHR 0xEF, CHR 0xBC, CHR 0x89]"

definition ja_eew_training :: string where \<comment> \<open>"earthquake early warning (training)"\<close>
  "ja_eew_training =
    [CHR 0xE7, CHR 0xB7, CHR 0x8A, CHR 0xE6, CHR 0x80, CHR 0xA5,
     CHR 0xE5, CHR 0x9C, CHR 0xB0, CHR 0xE9, CHR 0x9C, CHR 0x87,
     CHR 0xE9, CHR 0x80, CHR 0x9F, CHR 0xE5, CHR 0xA0, CHR 0xB1,
     CHR 0xEF, CHR 0xBC, CHR 0x88, CHR 0xE8, CHR 0xA8, CHR 0x93,
     CHR 0xE7, CHR 0xB7, CHR 0xB4, CHR 0xEF, CHR 0xBC, CHR 0x89]"

definition ja_eew_was_cancelled :: string where \<comment> \<open>"the earthquake early warning has been cancelled"\<close>
  "ja_eew_was_cancelled =
    [CHR 0xE7, CHR 0xB7, CHR 0x8A, CHR 0xE6, CHR 0x80, CHR 0xA5,
     CHR 0xE5, CHR 0x9C, CHR 0xB0, CHR 0xE9, CHR 0x9C, CHR 0x87,
     CHR 0xE9, CHR 0x80, CHR 0x9F, CHR 0xE5, CHR 0xA0, CHR 0xB1,
     CHR 0xE3, CHR 0x81, CHR 0x8C, CHR 0xE3, CHR 0x82, CHR 0xAD,
     CHR 0xE3, CHR 0x83, CHR 0xA3, CHR 0xE3, CHR 0x83, CHR 0xB3,
     CHR 0xE3, CHR 0x82, CHR 0xBB, CHR 0xE3, CHR 0x83, CHR 0xAB,
     CHR 0xE3, CHR 0x81, CHR 0x95, CHR 0xE3, CHR 0x82, CHR 0x8C,
     CHR 0xE3, CHR 0x81, CHR 0xBE, CHR 0xE3, CHR 0x81, CHR 0x97,
     CHR 0xE3, CHR 0x81, CHR 0x9F]"

definition ja_this_is_training :: string where \<comment> \<open>"this is a drill"\<close>
  "ja_this_is_training =
    [CHR 0xE3, CHR 0x81, CHR 0x93, CHR 0xE3, CHR 0x82, CHR 0x8C,
     CHR 0xE3, CHR 0x81, CHR 0xAF, CHR 0xE8, CHR 0xA8, CHR 0x93,
     CHR 0xE7, CHR 0xB7, CHR 0xB4, CHR 0xE3, CHR 0x81, CHR 0xA7,
     CHR 0xE3, CHR 0x81, CHR 0x99]"

definition ja_beware_strong_shaking :: string where \<comment> \<open>"beware of strong shaking"\<close>
  "ja_beware_strong_shaking =
    [CHR 0xE5, CHR 0xBC, CHR 0xB7, CHR 0xE3, CHR 0x81, CHR 0x84,
     CHR 0xE6, CHR 0x8F, CHR 0xBA, CHR 0xE3, CHR 0x82, CHR 0x8C,
     CHR 0xE3, CHR 0x81, CHR 0xAB, CHR 0xE8, CHR 0xAD, CHR 0xA6,
     CHR 0xE6, CHR 0x88, CHR 0x92, CHR 0xE3, CHR 0x81, CHR 0x97,
     CHR 0xE3, CHR 0x81, CHR 0xA6, CHR 0xE3, CHR 0x81, CHR 0x8F,
     CHR 0xE3, CHR 0x81, CHR 0xA0, CHR 0xE3, CHR 0x81, CHR 0x95,
     CHR 0xE3, CHR 0x81, CHR 0x84]"

definition ja_eew_received :: string where \<comment> \<open>"an earthquake early warning has been received"\<close>
  "ja_eew_received =
    [CHR 0xE7, CHR 0xB7, CHR 0x8A, CHR 0xE6, CHR 0x80, CHR 0xA5,
     CHR 0xE5, CHR 0x9C, CHR 0xB0, CHR 0xE9, CHR 0x9C, CHR 0x87,
     CHR 0xE9, CHR 0x80, CHR 0x9F, CHR 0xE5, CHR 0xA0, CHR 0xB1,
     CHR 0xE3, CHR 0x82, CHR 0x92, CHR 0xE5, CHR 0x8F, CHR 0x97,
     CHR 0xE4, CHR 0xBF, CHR 0xA1, CHR 0xE3, CHR 0x81, CHR 0x97,
     CHR 0xE3, CHR 0x81, CHR 0xBE, CHR 0xE3, CHR 0x81, CHR 0x97,
     CHR 0xE3, CHR 0x81, CHR 0x9F]"

definition ja_max_predicted_shindo :: string where \<comment> \<open>"maximum predicted intensity"\<close>
  "ja_max_predicted_shindo =
    [CHR 0xE6, CHR 0x9C, CHR 0x80, CHR 0xE5, CHR 0xA4, CHR 0xA7,
     CHR 0xE4, CHR 0xBA, CHR 0x88, CHR 0xE6, CHR 0xB8, CHR 0xAC,
     CHR 0xE9, CHR 0x9C, CHR 0x87, CHR 0xE5, CHR 0xBA, CHR 0xA6]"

definition ja_predicted_shindo_unknown :: string where \<comment> \<open>"predicted intensity unknown"\<close>
  "ja_predicted_shindo_unknown =
    [CHR 0xE4, CHR 0xBA, CHR 0x88, CHR 0xE6, CHR 0xB8, CHR 0xAC,
     CHR 0xE9, CHR 0x9C, CHR 0x87, CHR 0xE5, CHR 0xBA, CHR 0xA6,
     CHR 0xE4, CHR 0xB8, CHR 0x8D, CHR 0xE6, CHR 0x98, CHR 0x8E]"

definition ja_range_mark :: string where \<comment> \<open>the wave dash, "to"\<close>
  "ja_range_mark =
    [CHR 0xE3, CHR 0x80, CHR 0x9C]"

definition ja_regions :: string where \<comment> \<open>"regions"\<close>
  "ja_regions =
    [CHR 0xE5, CHR 0x9C, CHR 0xB0, CHR 0xE5, CHR 0x9F, CHR 0x9F]"

definition ja_predicted_shindo :: string where \<comment> \<open>"predicted intensity"\<close>
  "ja_predicted_shindo =
    [CHR 0xE4, CHR 0xBA, CHR 0x88, CHR 0xE6, CHR 0xB8, CHR 0xAC,
     CHR 0xE9, CHR 0x9C, CHR 0x87, CHR 0xE5, CHR 0xBA, CHR 0xA6]"

definition ja_training :: string where \<comment> \<open>"training"\<close>
  "ja_training =
    [CHR 0xE8, CHR 0xA8, CHR 0x93, CHR 0xE7, CHR 0xB7, CHR 0xB4]"

definition ja_ordinal :: string where \<comment> \<open>ordinal prefix, "number"\<close>
  "ja_ordinal =
    [CHR 0xE7, CHR 0xAC, CHR 0xAC]"

definition ja_report :: string where \<comment> \<open>"report"\<close>
  "ja_report =
    [CHR 0xE5, CHR 0xA0, CHR 0xB1]"

declare ja_quake_info_def [ja_defs] ja_quake_occurred_def [ja_defs] ja_occurrence_time_def [ja_defs]
  ja_epicenter_def [ja_defs] ja_magnitude_def [ja_defs] ja_depth_def [ja_defs]
  ja_approx_def [ja_defs] ja_tsunami_def [ja_defs] ja_shindo_by_place_def [ja_defs]
  ja_release_time_def [ja_defs] ja_provided_by_def [ja_defs] ja_max_shindo_def [ja_defs]
  ja_list_comma_def [ja_defs] ja_other_def [ja_defs] ja_places_def [ja_defs]
  ja_year_def [ja_defs] ja_month_def [ja_defs] ja_day_def [ja_defs]
  ja_hour_def [ja_defs] ja_minute_def [ja_defs] ja_none_def [ja_defs]
  ja_checking_def [ja_defs] ja_non_effective_def [ja_defs] ja_tsunami_advisory_def [ja_defs]
  ja_tsunami_warning_def [ja_defs] ja_major_tsunami_warning_def [ja_defs] ja_tsunami_info_def [ja_defs]
  ja_tsunami_issued_def [ja_defs] ja_tsunami_lifted_def [ja_defs] ja_warning_sign_def [ja_defs]
  ja_evacuate_now_def [ja_defs] ja_tsunami_forecast_area_def [ja_defs] ja_eew_def [ja_defs]
  ja_eew_cancel_def [ja_defs] ja_eew_training_def [ja_defs] ja_eew_was_cancelled_def [ja_defs]
  ja_this_is_training_def [ja_defs] ja_beware_strong_shaking_def [ja_defs] ja_eew_received_def [ja_defs]
  ja_max_predicted_shindo_def [ja_defs] ja_predicted_shindo_unknown_def [ja_defs] ja_range_mark_def [ja_defs]
  ja_regions_def [ja_defs] ja_predicted_shindo_def [ja_defs] ja_training_def [ja_defs]
  ja_ordinal_def [ja_defs] ja_report_def [ja_defs]

section \<open>JavaScript built-ins\<close>

text \<open>\<open>Array.prototype.join\<close>: the elements with the separator between neighbours.\<close>

fun join :: "string \<Rightarrow> string list \<Rightarrow> string" where
  "join sep [] = []"
| "join sep [x] = x"
| "join sep (x # y # ys) = x @ sep @ join sep (y # ys)"

text \<open>\<open>Array.prototype.push\<close> and \<open>splice(start, 0, item)\<close> on an array held as a list.\<close>

definition push :: "'a list \<Rightarrow> 'a \<Rightarrow> 'a list" where
  "push xs x = xs @ [x]"

definition splice_insert :: "'a list \<Rightarrow> nat \<Rightarrow> 'a \<Rightarrow> 'a list" where
  "splice_insert xs start item = take start xs @ [item] @ drop start xs"

text \<open>A number in a template literal: decimal digits, with a sign when negative.\<close>

function showNat :: "nat \<Rightarrow> string" where
  "showNat n =
    (if n < 10 then [''0123456789'' ! n]
     else showNat (n div 10) @ [''0123456789'' ! (n mod 10)])"
  by pat_completeness auto
termination
  by (relation "measure id") auto

declare showNat.simps [simp del]

definition showInt :: "int \<Rightarrow> string" where
  "showInt i = (if i < 0 then ''-'' @ showNat (nat (- i)) else showNat (nat i))"

definition padStart :: "nat \<Rightarrow> char \<Rightarrow> string \<Rightarrow> string" where
  "padStart n c s = replicate (n - length s) c @ s"

text \<open>
  Truthiness: an absent value (\<open>undefined\<close>, here \<open>None\<close>), the empty string and the
  number zero are falsy; the tests are written out where the program makes them.
  \<open>or_number x d\<close> is \<open>x || d\<close> on an optional number.
\<close>

fun or_number :: "int option \<Rightarrow> int \<Rightarrow> int" where
  "or_number None d = d"
| "or_number (Some n) d = (if n \<noteq> 0 then n else d)"

text \<open>
  The \<open>Date\<close> object and \<open>Number.prototype.toFixed\<close> are the runtime's: a date is the
  record of the local-time fields its getters return, \<open>newDate\<close> is the constructor
  (\<open>None\<close> is the Invalid Date, whose getters all return \<open>NaN\<close>), and \<open>toFixed1\<close> is
  \<open>toFixed(1)\<close>.
\<close>

record JSDate =
  getFullYear :: int
  getMonth :: nat
  getDate :: nat
  getHours :: nat
  getMinutes :: nat

record Runtime =
  newDate :: "string \<Rightarrow> JSDate option"
  toFixed1 :: "real \<Rightarrow> string"

section \<open>Intensity classifier (src/utils/intensity.ts)\<close>

text \<open>
  \<open>SeismicIntensity\<close> is a numeric literal type of the feed library; at run time it
  is a number. Its values are the keys of \<open>INTENSITY_MAP\<close>, which is declared as a
  \<open>Record<SeismicIntensity, string>\<close> and so lists every one of them.
\<close>

type_synonym SeismicIntensity = int

definition INTENSITY_MAP :: "(SeismicIntensity \<times> string) list" where
  "INTENSITY_MAP =
    [(-1, ja_unknown),
     (0, ja_shindo @ ''0''),
     (10, ja_shindo @ ''1''),
     (20, ja_shindo @ ''2''),
     (30, ja_shindo @ ''3''),
     (40, ja_shindo @ ''4''),
     (45, ja_shindo @ ''5'' @ ja_weak),
     (50, ja_shindo @ ''5'' @ ja_strong),
     (55, ja_shindo @ ''6'' @ ja_weak),
     (60, ja_shindo @ ''6'' @ ja_strong),
     (70, ja_shindo @ ''7''),
     (99, ja_abnormal)]"

definition SeismicIntensity_values :: "SeismicIntensity list" where
  "SeismicIntensity_values = map fst INTENSITY_MAP"

definition STRING_TO_INTENSITY :: "(string \<times> SeismicIntensity) list" where
  "STRING_TO_INTENSITY =
    [(''1'', 10),
     (''2'', 20),
     (''3'', 30),
     (''4'', 40),
     (''5-'', 45),
     (''5'' @ ja_weak, 45),
     (''5+'', 50),
     (''5'' @ ja_strong, 50),
     (''6-'', 55),
     (''6'' @ ja_weak, 55),
     (''6+'', 60),
     (''6'' @ ja_strong, 60),
     (''7'', 70)]"

definition INTENSITY_COLORS_low :: string where
  "INTENSITY_COLORS_low = ''#3AA3E3''"

definition INTENSITY_COLORS_moderate :: string where
  "INTENSITY_COLORS_moderate = ''#F2C744''"

definition INTENSITY_COLORS_high :: string where
  "INTENSITY_COLORS_high = ''#F18D00''"

definition INTENSITY_COLORS_severe :: string where
  "INTENSITY_COLORS_severe = ''#E2231A''"

text \<open>
  \<open>INTENSITY_MAP[intensity] || '...'\<close>: the fallback is taken when the key is missing
  (the lookup is \<open>undefined\<close>) and when the stored text is empty (falsy).
\<close>

definition intensityToString :: "SeismicIntensity \<Rightarrow> string" where
  "intensityToString intensity =
    (case map_of INTENSITY_MAP intensity of
       Some s \<Rightarrow> if s \<noteq> [] then s else ja_unknown
     | None \<Rightarrow> ja_unknown)"

text \<open>
  Property access on an object literal. \<open>STRING_TO_INTENSITY\<close> is a plain object, so
  \<open>STRING_TO_INTENSITY[str]\<close> first looks among the object's own properties and then
  follows the prototype chain to \<open>Object.prototype\<close>, whose members are functions or
  objects, never \<open>undefined\<close>. A lookup therefore finds an own value, an inherited
  member, or nothing.
\<close>

definition Object_prototype_keys :: "string list" where
  "Object_prototype_keys =
    [''constructor'', ''__defineGetter__'', ''__defineSetter__'', ''hasOwnProperty'',
     ''__lookupGetter__'', ''__lookupSetter__'', ''isPrototypeOf'',
     ''propertyIsEnumerable'', ''toString'', ''valueOf'', ''__proto__'',
     ''toLocaleString'']"

datatype 'v property = Own 'v | Inherited string

definition js_get :: "(string \<times> 'v) list \<Rightarrow> string \<Rightarrow> 'v property option" where
  "js_get obj key =
    (case map_of obj key of
       Some v \<Rightarrow> Some (Own v)
     | None \<Rightarrow> if key \<in> set Object_prototype_keys then Some (Inherited key) else None)"

datatype thrown = Error string | NonError string

text \<open>
  \<open>parseIntensityString\<close> throws an \<open>Error\<close> exactly when the lookup is \<open>undefined\<close>
  and returns what the lookup found otherwise.
\<close>

definition valid_values :: "string list" where
  "valid_values = [''1'', ''2'', ''3'', ''4'', ''5-'', ''5+'', ''6-'', ''6+'', ''7'']"

definition localized_values :: "string list" where
  "localized_values = [''5'' @ ja_weak, ''5'' @ ja_strong, ''6'' @ ja_weak, ''6'' @ ja_strong]"

definition parseIntensityString :: "string \<Rightarrow> thrown + SeismicIntensity property" where
  "parseIntensityString str =
    (case js_get STRING_TO_INTENSITY str of
       None \<Rightarrow>
         Inl (Error (''Invalid intensity string: '' @ str @
                     ''. Valid values: 1, 2, 3, 4, 5-, 5+, 6-, 6+, 7''))
     | Some intensity \<Rightarrow> Inr intensity)"

definition shouldNotify :: "SeismicIntensity \<Rightarrow> SeismicIntensity \<Rightarrow> bool" where
  "shouldNotify intensity threshold =
    (if intensity < 0 \<or> intensity = 99 then False else intensity \<ge> threshold)"

definition getIntensityColor :: "SeismicIntensity \<Rightarrow> string" where
  "getIntensityColor intensity =
    (if intensity \<le> 30 then INTENSITY_COLORS_low
     else if intensity = 40 then INTENSITY_COLORS_moderate
     else if intensity \<ge> 45 \<and> intensity \<le> 50 then INTENSITY_COLORS_high
     else INTENSITY_COLORS_severe)"

section \<open>Event records of the feed (types of the feed library)\<close>

text \<open>
  The records follow the fields the program reads. A field the program guards with
  \<open>?.\<close>, a truthiness test or \<open>!== undefined\<close> is optional.
\<close>

record Hypocenter =
  hypocenter_name :: "string option"
  magnitude :: "real option"
  depth :: "int option"

text \<open>
  Modelled from the spec: the feed library's declarations of the two enumerations are
  not among the sources; the spec lists their values (none, unknown, checking,
  non-effective, watch, warning; major-warning, warning, watch, unknown), which are the
  keys of \<open>tsunamiMap\<close> and \<open>gradeMap\<close>.
\<close>

datatype DomesticTsunami =
  DT_None | DT_Unknown | DT_Checking | DT_NonEffective | DT_Watch | DT_Warning

datatype TsunamiGrade = MajorWarning | Warning | Watch | Unknown

record QuakeEarthquake =
  earthquake_time :: string
  hypocenter :: "Hypocenter option"
  maxScale :: SeismicIntensity
  domesticTsunami :: "DomesticTsunami option"

record ObservationPoint =
  addr :: string
  scale :: SeismicIntensity
  isArea :: bool

record JMAQuake =
  quake_time :: string
  earthquake :: QuakeEarthquake
  points :: "ObservationPoint list option"

record TsunamiArea =
  tsunami_area_name :: string
  grade :: TsunamiGrade
  immediate :: bool

record JMATsunami =
  tsunami_cancelled :: bool
  tsunami_time :: string
  tsunami_areas :: "TsunamiArea list option"

record EEWArea =
  eew_area_name :: string
  scaleFrom :: "SeismicIntensity option"
  scaleTo :: "SeismicIntensity option"
  arrivalTime :: "string option"

record EEWEarthquake =
  originTime :: "string option"
  eew_hypocenter :: "Hypocenter option"

record EEW =
  eew_cancelled :: bool
  eew_test :: bool
  issue_serial :: string
  eew_time :: string
  eew_earthquake :: "EEWEarthquake option"
  eew_areas :: "EEWArea list option"

section \<open>Configuration (src/config/env.ts)\<close>

datatype NodeEnv = development | production

record Config =
  slackBotToken :: string
  slackChannelId :: string
  minIntensity :: SeismicIntensity
  nodeEnv :: NodeEnv
  githubImageBaseUrl :: string

section \<open>Message formatter (src/utils/formatter.ts)\<close>

text \<open>
  The functions are those of the listing with the Japanese texts (\<open>formatQuakeMessage\<close>,
  \<open>formatObservationPoints\<close>, \<open>formatTsunamiMessage\<close>, \<open>formatEEWMessage\<close> and their
  helpers). A document is a list of Block Kit blocks.
\<close>

datatype TextObject = Mrkdwn string

datatype ImageElement = Image (image_url: string) (alt_text: string)

datatype KnownBlock =
    Section TextObject "ImageElement option"
  | SectionFields "TextObject list"
  | Divider
  | Context "TextObject list"

definition newline :: string where
  "newline = [CHR 0x0A]"

definition getImageUrl :: "Config \<Rightarrow> string \<Rightarrow> string" where
  "getImageUrl config filename =
    (let baseUrl =
       (if githubImageBaseUrl config \<noteq> [] \<and> last (githubImageBaseUrl config) = CHR ''/''
        then butlast (githubImageBaseUrl config)
        else githubImageBaseUrl config)
     in baseUrl @ ''/'' @ filename)"

definition formatDateTime :: "Runtime \<Rightarrow> string \<Rightarrow> string" where
  "formatDateTime rt dateTime =
    (case newDate rt dateTime of
       None \<Rightarrow>
         ''NaN'' @ ja_year @ ''NaN'' @ ja_month @ ''NaN'' @ ja_day @ '' NaN'' @ ja_hour @
         ''NaN'' @ ja_minute
     | Some date \<Rightarrow>
         (let year = getFullYear date;
              month = getMonth date + 1;
              day = getDate date;
              hours = getHours date;
              minutes = padStart 2 CHR ''0'' (showNat (getMinutes date))
          in showInt year @ ja_year @ showNat month @ ja_month @ showNat day @ ja_day @
             '' '' @ showNat hours @ ja_hour @ minutes @ ja_minute))"

definition formatTime :: "Runtime \<Rightarrow> string \<Rightarrow> string" where
  "formatTime rt dateTime =
    (case newDate rt dateTime of
       None \<Rightarrow> ''NaN:NaN''
     | Some date \<Rightarrow>
         (let hours = getHours date;
              minutes = padStart 2 CHR ''0'' (showNat (getMinutes date))
          in showNat hours @ '':'' @ minutes))"

fun getTsunamiText :: "DomesticTsunami \<Rightarrow> string" where
  "getTsunamiText DT_None = ja_none"
| "getTsunamiText DT_Unknown = ja_unknown"
| "getTsunamiText DT_Checking = ja_checking"
| "getTsunamiText DT_NonEffective = ja_non_effective"
| "getTsunamiText DT_Watch = ja_tsunami_advisory"
| "getTsunamiText DT_Warning = ja_tsunami_warning"

fun getTsunamiGradeText :: "TsunamiGrade \<Rightarrow> string" where
  "getTsunamiGradeText MajorWarning = ja_major_tsunami_warning"
| "getTsunamiGradeText Warning = ja_tsunami_warning"
| "getTsunamiGradeText Watch = ja_tsunami_advisory"
| "getTsunamiGradeText Unknown = ja_unknown"

subsection \<open>Observation points\<close>

text \<open>
  The \<open>Map\<close> from intensity to locations is an association list in insertion order:
  \<open>set\<close> on a present key keeps its position and on a new key appends, which is
  \<^const>\<open>AList.update\<close>. \<open>sort((a, b) => b - a)\<close> is the stable sort on the negated key.
\<close>

definition maxDisplay :: nat where
  "maxDisplay = 10"

text \<open>\<open>grouped.get(intensity) || []\<close>: the array stored under a key, or a new empty one.\<close>

definition locations_in ::
  "(SeismicIntensity \<times> string list) list \<Rightarrow> SeismicIntensity \<Rightarrow> string list" where
  "locations_in grouped intensity =
    (case map_of grouped intensity of Some ls \<Rightarrow> ls | None \<Rightarrow> [])"

definition group_point ::
  "(SeismicIntensity \<times> string list) list \<Rightarrow> ObservationPoint \<Rightarrow>
   (SeismicIntensity \<times> string list) list" where
  "group_point grouped point =
    (let locations = locations_in grouped (scale point)
     in AList.update (scale point) (push locations (addr point)) grouped)"

definition observation_line ::
  "(SeismicIntensity \<times> string list) list \<Rightarrow> SeismicIntensity \<Rightarrow> string" where
  "observation_line grouped intensity =
    (let locations = locations_in grouped intensity;
         intensityStr = intensityToString intensity
     in if length locations \<le> maxDisplay
        then ''*'' @ intensityStr @ ''*: '' @ join ja_list_comma locations
        else
          (let displayed = take maxDisplay locations;
               remaining = length locations - maxDisplay
           in ''*'' @ intensityStr @ ''*: '' @ join ja_list_comma displayed @
              '' '' @ ja_other @ showNat remaining @ ja_places))"

definition formatObservationPoints :: "ObservationPoint list \<Rightarrow> string" where
  "formatObservationPoints pts =
    (let grouped = foldl group_point [] pts;
         sortedIntensities = sort_key uminus (map fst grouped);
         lines = map (observation_line grouped) sortedIntensities
     in join newline lines)"

subsection \<open>Earthquake information\<close>

text \<open>
  Each builder starts from the empty array and pushes its blocks in program order;
  the let-bound \<open>blocks\<close> is the array after each statement.
\<close>

definition quake_earthquakeInfo :: "Runtime \<Rightarrow> JMAQuake \<Rightarrow> string list" where
  "quake_earthquakeInfo rt quake =
    (let earthquakeInfo =
           [''*'' @ ja_occurrence_time @ ''*'' @ newline @
            formatDateTime rt (earthquake_time (earthquake quake))];
         earthquakeInfo =
           (case Option.bind (hypocenter (earthquake quake)) hypocenter_name of
              Some name \<Rightarrow>
                if name \<noteq> []
                then push earthquakeInfo (''*'' @ ja_epicenter @ ''*'' @ newline @ name)
                else earthquakeInfo
            | None \<Rightarrow> earthquakeInfo);
         earthquakeInfo =
           (case Option.bind (hypocenter (earthquake quake)) magnitude of
              Some m \<Rightarrow>
                push earthquakeInfo
                  (''*'' @ ja_magnitude @ ''*'' @ newline @ ''M'' @
                   (if m \<ge> 0 then toFixed1 rt m else ja_unknown))
            | None \<Rightarrow> earthquakeInfo);
         earthquakeInfo =
           (case Option.bind (hypocenter (earthquake quake)) depth of
              Some d \<Rightarrow>
                push earthquakeInfo
                  (''*'' @ ja_depth @ ''*'' @ newline @
                   (if d \<ge> 0 then ja_approx @ showInt d @ ''km'' else ja_unknown))
            | None \<Rightarrow> earthquakeInfo);
         earthquakeInfo =
           (case domesticTsunami (earthquake quake) of
              Some tsunamiType \<Rightarrow>
                push earthquakeInfo
                  (''*'' @ ja_tsunami @ ''*'' @ newline @ getTsunamiText tsunamiType)
            | None \<Rightarrow> earthquakeInfo)
     in earthquakeInfo)"

text \<open>The object literals the builder pushes.\<close>

definition quake_header :: "Config \<Rightarrow> KnownBlock" where
  "quake_header config =
    Section (Mrkdwn (''*'' @ ja_quake_info @ ''*''))
      (Some (Image (getImageUrl config ''rotating_light.png'') ja_quake_info))"

definition quake_alert :: KnownBlock where
  "quake_alert = Section (Mrkdwn (''<!here> '' @ ja_quake_occurred)) None"

definition quake_observation :: "string \<Rightarrow> KnownBlock" where
  "quake_observation observationText =
    Section (Mrkdwn (''*'' @ ja_shindo_by_place @ ''*'' @ newline @ observationText)) None"

definition quake_footer :: "Runtime \<Rightarrow> JMAQuake \<Rightarrow> KnownBlock" where
  "quake_footer rt quake =
    Context
      [Mrkdwn (ja_release_time @ '': '' @ formatDateTime rt (quake_time quake) @
               '' | '' @ ja_provided_by @ '': P2P'' @ ja_quake_info)]"

definition quake_max_intensity :: "SeismicIntensity \<Rightarrow> KnownBlock" where
  "quake_max_intensity maxIntensity =
    Section (Mrkdwn (''*'' @ ja_max_shindo @ ''*'' @ newline @ intensityToString maxIntensity))
      None"

definition formatQuakeMessage :: "Config \<Rightarrow> Runtime \<Rightarrow> JMAQuake \<Rightarrow> KnownBlock list" where
  "formatQuakeMessage config rt quake =
    (let blocks = [];
         maxIntensity = maxScale (earthquake quake);
         blocks = push blocks (quake_header config);
         blocks = push blocks quake_alert;
         blocks = push blocks Divider;
         earthquakeInfo = quake_earthquakeInfo rt quake;
         blocks = push blocks (SectionFields (map Mrkdwn earthquakeInfo));
         blocks =
           (case points quake of
              Some pts \<Rightarrow>
                if length pts > 0
                then
                  (let blocks = push blocks Divider;
                       observationText = formatObservationPoints pts
                   in push blocks (quake_observation observationText))
                else blocks
            | None \<Rightarrow> blocks);
         blocks = push blocks Divider;
         blocks = push blocks (quake_footer rt quake)
     in splice_insert blocks 3 (quake_max_intensity maxIntensity))"

subsection \<open>Tsunami information\<close>

definition tsunami_area_line :: "TsunamiArea \<Rightarrow> string" where
  "tsunami_area_line area =
    (let gradeText = getTsunamiGradeText (grade area);
         immediateText =
           (if immediate area then '' '' @ ja_warning_sign @ '' *'' @ ja_evacuate_now @ ''*''
            else [])
     in ''*'' @ tsunami_area_name area @ ''*: '' @ gradeText @ immediateText)"

definition tsunami_header :: "Config \<Rightarrow> KnownBlock" where
  "tsunami_header config =
    Section (Mrkdwn (''*'' @ ja_tsunami_info @ ''*''))
      (Some (Image (getImageUrl config ''ocean.png'') ja_tsunami_info))"

definition tsunami_alert :: KnownBlock where
  "tsunami_alert = Section (Mrkdwn (''<!here> '' @ ja_tsunami_issued)) None"

definition tsunami_cancel_notice :: KnownBlock where
  "tsunami_cancel_notice = Section (Mrkdwn (''*'' @ ja_tsunami_lifted @ ''*'')) None"

definition tsunami_forecast :: "string \<Rightarrow> KnownBlock" where
  "tsunami_forecast areasText =
    Section (Mrkdwn (''*'' @ ja_tsunami_forecast_area @ ''*'' @ newline @ areasText)) None"

definition tsunami_footer :: "Runtime \<Rightarrow> JMATsunami \<Rightarrow> KnownBlock" where
  "tsunami_footer rt tsunami =
    Context
      [Mrkdwn (ja_release_time @ '': '' @ formatDateTime rt (tsunami_time tsunami) @
               '' | '' @ ja_provided_by @ '': P2P'' @ ja_quake_info)]"

definition formatTsunamiMessage :: "Config \<Rightarrow> Runtime \<Rightarrow> JMATsunami \<Rightarrow> KnownBlock list" where
  "formatTsunamiMessage config rt tsunami =
    (let blocks = [];
         blocks = push blocks (tsunami_header config);
         blocks = push blocks tsunami_alert;
         blocks = push blocks Divider;
         blocks =
           (if tsunami_cancelled tsunami then push blocks tsunami_cancel_notice else blocks);
         blocks =
           (case tsunami_areas tsunami of
              Some areas \<Rightarrow>
                if length areas > 0
                then
                  (let areasText = join newline (map tsunami_area_line areas)
                   in push blocks (tsunami_forecast areasText))
                else blocks
            | None \<Rightarrow> blocks);
         blocks = push blocks Divider;
         blocks = push blocks (tsunami_footer rt tsunami)
     in blocks)"

subsection \<open>Earthquake early warning\<close>

definition maxPredictedIntensity :: "EEW \<Rightarrow> SeismicIntensity" where
  "maxPredictedIntensity eew =
    or_number
      (map_option (foldl (\<lambda>mx area. max mx (or_number (scaleTo area) 0)) 0) (eew_areas eew))
      0"

definition isWarning :: "EEW \<Rightarrow> bool" where
  "isWarning eew = (maxPredictedIntensity eew \<ge> 50)"

definition eew_imageFilename :: "EEW \<Rightarrow> string" where
  "eew_imageFilename eew =
    (if eew_cancelled eew then ''no.png''
     else if eew_test eew then ''mega.png''
     else if isWarning eew then ''warning.png''
     else ''mega.png'')"

definition eew_title :: "EEW \<Rightarrow> string" where
  "eew_title eew =
    (if eew_cancelled eew then ja_eew_cancel
     else if eew_test eew then ja_eew_training
     else ja_eew)"

definition eew_alertText :: "EEW \<Rightarrow> string" where
  "eew_alertText eew =
    (if eew_cancelled eew then ja_eew_was_cancelled
     else if eew_test eew then ''**'' @ ja_this_is_training @ ''**''
     else if isWarning eew then ''**'' @ ja_beware_strong_shaking @ ''**''
     else ja_eew_received)"

definition eew_eewInfo :: "Runtime \<Rightarrow> EEW \<Rightarrow> string list" where
  "eew_eewInfo rt eew =
    (let eewInfo = [];
         eewInfo =
           (case Option.bind (eew_earthquake eew) originTime of
              Some t \<Rightarrow>
                if t \<noteq> []
                then push eewInfo (''*'' @ ja_occurrence_time @ ''*'' @ newline @ formatDateTime rt t)
                else eewInfo
            | None \<Rightarrow> eewInfo);
         eewInfo =
           (case Option.bind (Option.bind (eew_earthquake eew) eew_hypocenter) hypocenter_name of
              Some name \<Rightarrow>
                if name \<noteq> []
                then push eewInfo (''*'' @ ja_epicenter @ ''*'' @ newline @ name)
                else eewInfo
            | None \<Rightarrow> eewInfo);
         eewInfo =
           (case Option.bind (Option.bind (eew_earthquake eew) eew_hypocenter) magnitude of
              Some m \<Rightarrow>
                if m \<ge> 0
                then push eewInfo (''*'' @ ja_magnitude @ ''*'' @ newline @ ''M'' @ toFixed1 rt m)
                else eewInfo
            | None \<Rightarrow> eewInfo);
         eewInfo =
           (case Option.bind (Option.bind (eew_earthquake eew) eew_hypocenter) depth of
              Some d \<Rightarrow>
                if d \<ge> 0
                then push eewInfo
                       (''*'' @ ja_depth @ ''*'' @ newline @ ja_approx @ showInt d @ ''km'')
                else eewInfo
            | None \<Rightarrow> eewInfo);
         eewInfo =
           (if maxPredictedIntensity eew > 0
            then push eewInfo
                   (''*'' @ ja_max_predicted_shindo @ ''*'' @ newline @
                    intensityToString (maxPredictedIntensity eew))
            else eewInfo)
     in eewInfo)"

definition eew_intensityFrom :: "EEWArea \<Rightarrow> string" where
  "eew_intensityFrom area =
    (case scaleFrom area of
       Some s \<Rightarrow> if s \<noteq> 0 then intensityToString s else ja_predicted_shindo_unknown
     | None \<Rightarrow> ja_predicted_shindo_unknown)"

definition eew_intensityTo :: "EEWArea \<Rightarrow> string" where
  "eew_intensityTo area =
    (case scaleTo area of
       Some t \<Rightarrow>
         if t \<noteq> 0 \<and> scaleTo area \<noteq> scaleFrom area
         then ja_range_mark @ intensityToString t
         else []
     | None \<Rightarrow> [])"

definition eew_arrivalTime :: "Runtime \<Rightarrow> EEWArea \<Rightarrow> string" where
  "eew_arrivalTime rt area =
    (case arrivalTime area of
       Some t \<Rightarrow> if t \<noteq> [] then '' ('' @ formatTime rt t @ '')'' else []
     | None \<Rightarrow> [])"

definition eew_area_line :: "Runtime \<Rightarrow> EEWArea \<Rightarrow> string" where
  "eew_area_line rt area =
    (let intensityFrom = eew_intensityFrom area;
         intensityTo = eew_intensityTo area;
         arrival = eew_arrivalTime rt area
     in ''*'' @ eew_area_name area @ ''*: '' @ intensityFrom @ intensityTo @ arrival)"

definition eew_header :: "Config \<Rightarrow> string \<Rightarrow> string \<Rightarrow> KnownBlock" where
  "eew_header config title imageFilename =
    Section (Mrkdwn (''*'' @ title @ ''*'')) (Some (Image (getImageUrl config imageFilename) title))"

definition eew_alert :: "string \<Rightarrow> KnownBlock" where
  "eew_alert alertText = Section (Mrkdwn alertText) None"

definition eew_area_detail :: "string \<Rightarrow> string \<Rightarrow> KnownBlock" where
  "eew_area_detail areasText remaining =
    Section (Mrkdwn (''*'' @ ja_predicted_shindo @ ''*'' @ newline @ areasText @ remaining)) None"

definition eew_remaining :: "EEWArea list \<Rightarrow> string" where
  "eew_remaining areas =
    (if length areas > 15 then '' '' @ ja_other @ showNat (length areas - 15) @ ja_regions
     else [])"

definition eew_footer :: "Runtime \<Rightarrow> EEW \<Rightarrow> string \<Rightarrow> KnownBlock" where
  "eew_footer rt eew issueType =
    Context
      [Mrkdwn (issueType @ '' | '' @ ja_release_time @ '': '' @ formatDateTime rt (eew_time eew))]"

definition formatEEWMessage :: "Config \<Rightarrow> Runtime \<Rightarrow> EEW \<Rightarrow> KnownBlock list" where
  "formatEEWMessage config rt eew =
    (let blocks = [];
         isCancelled = eew_cancelled eew;
         isTest = eew_test eew;
         imageFilename = eew_imageFilename eew;
         title = eew_title eew;
         blocks = push blocks (eew_header config title imageFilename);
         alertText = eew_alertText eew;
         blocks = push blocks (eew_alert alertText);
         blocks = push blocks Divider;
         eewInfo = eew_eewInfo rt eew;
         blocks =
           (if length eewInfo > 0 then push blocks (SectionFields (map Mrkdwn eewInfo))
            else blocks);
         blocks =
           (case eew_areas eew of
              Some areas \<Rightarrow>
                if length areas > 0 \<and> \<not> isCancelled
                then
                  (let blocks = push blocks Divider;
                       areasText = join newline (map (eew_area_line rt) (take 15 areas));
                       remaining = eew_remaining areas
                   in push blocks (eew_area_detail areasText remaining))
                else blocks
            | None \<Rightarrow> blocks);
         blocks = push blocks Divider;
         issueType =
           (if isTest then ja_training else ja_ordinal @ issue_serial eew @ ja_report);
         blocks = push blocks (eew_footer rt eew issueType)
     in blocks)"


section \<open>Effects: the console, the chat channel and thrown values\<close>

text \<open>
  The observable state is what has been written to the console and which documents
  have been handed to \<open>chat.postMessage\<close>, in call order. A computation returns
  either the value it threw (\<open>Inl\<close>) or its result (\<open>Inr\<close>), with the state it left.
  An \<open>await\<close> is run in place: the model follows one event from its dispatch to the
  end of its handler before the next one starts.
\<close>

datatype LogLevel = ERROR | WARN | INFO | DEBUG

record World =
  console :: "(LogLevel \<times> string) list"
  posted :: "KnownBlock list list"

type_synonym 'a outcome = "(thrown + 'a) \<times> World"

definition returns :: "'a \<Rightarrow> World \<Rightarrow> 'a outcome" where
  "returns v w = (Inr v, w)"

definition throw :: "thrown \<Rightarrow> World \<Rightarrow> 'a outcome" where
  "throw e w = (Inl e, w)"

definition and_then :: "'a outcome \<Rightarrow> ('a \<Rightarrow> World \<Rightarrow> 'b outcome) \<Rightarrow> 'b outcome" where
  "and_then r k = (case r of (Inl e, w) \<Rightarrow> (Inl e, w) | (Inr v, w) \<Rightarrow> k v w)"

definition try_catch :: "'a outcome \<Rightarrow> (thrown \<Rightarrow> World \<Rightarrow> 'a outcome) \<Rightarrow> 'a outcome" where
  "try_catch r handler = (case r of (Inl e, w) \<Rightarrow> handler e w | (Inr v, w) \<Rightarrow> (Inr v, w))"

fun instanceof_Error :: "thrown \<Rightarrow> bool" where
  "instanceof_Error (Error message) = True"
| "instanceof_Error (NonError v) = False"

text \<open>
  A typed event record cannot make the pure steps of a handler fail, but at run time a
  payload is unchecked JSON and any statement may raise. A delivered payload therefore
  comes with the faults the runtime raises while the handler works on it, one per
  stage of the handler; \<open>no_faults\<close> is the well-formed payload.
\<close>

datatype Stage = Classification | Filtering | Formatting

type_synonym Faults = "Stage \<Rightarrow> thrown option"

definition no_faults :: Faults where
  "no_faults = (\<lambda>stage. None)"

definition evaluate :: "Faults \<Rightarrow> Stage \<Rightarrow> 'a \<Rightarrow> World \<Rightarrow> 'a outcome" where
  "evaluate faults stage v w = (case faults stage of Some e \<Rightarrow> throw e w | None \<Rightarrow> returns v w)"

section \<open>Logger (src/utils/logger.ts)\<close>

fun LOG_LEVELS :: "LogLevel \<Rightarrow> nat" where
  "LOG_LEVELS ERROR = 0"
| "LOG_LEVELS WARN = 1"
| "LOG_LEVELS INFO = 2"
| "LOG_LEVELS DEBUG = 3"

record Logger =
  minLevel :: nat
  isDevelopment :: bool

definition new_Logger :: "bool \<Rightarrow> Logger" where
  "new_Logger dev =
    \<lparr>minLevel = (if dev then LOG_LEVELS DEBUG else LOG_LEVELS INFO), isDevelopment = dev\<rparr>"

definition shouldLog :: "Logger \<Rightarrow> LogLevel \<Rightarrow> bool" where
  "shouldLog logger level = (LOG_LEVELS level \<le> minLevel logger)"

text \<open>A console line is recorded by its level and message; the timestamp is left out.\<close>

definition logger_log :: "Logger \<Rightarrow> LogLevel \<Rightarrow> string \<Rightarrow> World \<Rightarrow> World" where
  "logger_log logger level message w =
    (if \<not> shouldLog logger level then w
     else w\<lparr>console := console w @ [(level, message)]\<rparr>)"

section \<open>Chat channel (src/services/slack.ts)\<close>

record PostMessageResult =
  ok :: bool
  result_error :: string
  ts :: string

record SlackService =
  postMessage :: "KnownBlock list \<Rightarrow> thrown + PostMessageResult"
  channelId :: string

definition string_includes :: "string \<Rightarrow> string \<Rightarrow> bool" where
  "string_includes s part = sublist part s"

definition sendMessage ::
  "Logger \<Rightarrow> Config \<Rightarrow> SlackService \<Rightarrow> KnownBlock list \<Rightarrow> World \<Rightarrow> unit outcome" where
  "sendMessage logger config slack blocks w =
    try_catch
      (let w = (if nodeEnv config = development
                then logger_log logger DEBUG ''Sending Slack message'' w else w);
           w = w\<lparr>posted := posted w @ [blocks]\<rparr>
       in case postMessage slack blocks of
            Inl e \<Rightarrow> throw e w
          | Inr result \<Rightarrow>
              if \<not> ok result then throw (Error (''Slack API error: '' @ result_error result)) w
              else returns () (logger_log logger INFO ''Slack message sent successfully'' w))
      (\<lambda>error w.
         (let w =
            (case error of
               Error message \<Rightarrow>
                 (let w = logger_log logger ERROR ''Failed to send Slack message'' w
                  in if string_includes message ''not_in_channel''
                     then logger_log logger ERROR
                       ''Bot is not in the channel. Please invite the bot to the channel first.'' w
                     else if string_includes message ''channel_not_found''
                     then logger_log logger ERROR ''Channel not found. Please check SLACK_CHANNEL_ID.'' w
                     else if string_includes message ''invalid_auth''
                     then logger_log logger ERROR
                       ''Invalid authentication. Please check SLACK_BOT_TOKEN.'' w
                     else if string_includes message ''rate_limited''
                     then logger_log logger WARN
                       ''Rate limited by Slack API. Message will be retried automatically.'' w
                     else w)
             | NonError v \<Rightarrow> w)
          in throw error w))"

section \<open>Stream client (src/services/p2pquake.ts, the class \<open>P2PQuakeService\<close>)\<close>

type_synonym 'e Handler = "Faults \<Rightarrow> 'e \<Rightarrow> World \<Rightarrow> unit outcome"

record P2PQuakeService =
  quakeHandler :: "JMAQuake Handler option"
  tsunamiHandler :: "JMATsunami Handler option"
  eewHandler :: "EEW Handler option"

definition new_P2PQuakeService :: P2PQuakeService where
  "new_P2PQuakeService = \<lparr>quakeHandler = None, tsunamiHandler = None, eewHandler = None\<rparr>"

definition onQuake :: "P2PQuakeService \<Rightarrow> JMAQuake Handler \<Rightarrow> P2PQuakeService" where
  "onQuake service handler = service\<lparr>quakeHandler := Some handler\<rparr>"

definition onTsunami :: "P2PQuakeService \<Rightarrow> JMATsunami Handler \<Rightarrow> P2PQuakeService" where
  "onTsunami service handler = service\<lparr>tsunamiHandler := Some handler\<rparr>"

definition onEEW :: "P2PQuakeService \<Rightarrow> EEW Handler \<Rightarrow> P2PQuakeService" where
  "onEEW service handler = service\<lparr>eewHandler := Some handler\<rparr>"

text \<open>The three listeners of \<open>setupEventHandlers\<close>, for the codes 551, 552 and 556.\<close>

definition guarded_call ::
  "Logger \<Rightarrow> string \<Rightarrow> 'e Handler option \<Rightarrow> Faults \<Rightarrow> 'e \<Rightarrow> World \<Rightarrow> unit outcome" where
  "guarded_call logger message handler faults data w =
    (case handler of
       None \<Rightarrow> returns () w
     | Some h \<Rightarrow>
         try_catch (h faults data w)
           (\<lambda>error w.
              if instanceof_Error error then returns () (logger_log logger ERROR message w)
              else returns () w))"

definition listener_551 ::
  "Logger \<Rightarrow> P2PQuakeService \<Rightarrow> Faults \<Rightarrow> JMAQuake \<Rightarrow> World \<Rightarrow> unit outcome" where
  "listener_551 logger service faults data w =
    (let w = logger_log logger DEBUG ''Received JMA earthquake information'' w
     in guarded_call logger ''Error in quake handler'' (quakeHandler service) faults data w)"

definition listener_552 ::
  "Logger \<Rightarrow> P2PQuakeService \<Rightarrow> Faults \<Rightarrow> JMATsunami \<Rightarrow> World \<Rightarrow> unit outcome" where
  "listener_552 logger service faults data w =
    (let w = logger_log logger DEBUG ''Received JMA tsunami information'' w
     in guarded_call logger ''Error in tsunami handler'' (tsunamiHandler service) faults data w)"

definition listener_556 ::
  "Logger \<Rightarrow> P2PQuakeService \<Rightarrow> Faults \<Rightarrow> EEW \<Rightarrow> World \<Rightarrow> unit outcome" where
  "listener_556 logger service faults data w =
    (let w = logger_log logger DEBUG ''Received EEW detection'' w
     in guarded_call logger ''Error in EEW handler'' (eewHandler service) faults data w)"

text \<open>
  A frame of a subscribed code with its payload. The feed client invokes the listener
  of the frame's code; a value a listener throws leaves the dispatch and ends the run.
\<close>

datatype Frame =
    Frame551 Faults JMAQuake
  | Frame552 Faults JMATsunami
  | Frame556 Faults EEW

fun dispatch :: "Logger \<Rightarrow> P2PQuakeService \<Rightarrow> Frame \<Rightarrow> World \<Rightarrow> unit outcome" where
  "dispatch logger service (Frame551 faults data) w = listener_551 logger service faults data w"
| "dispatch logger service (Frame552 faults data) w = listener_552 logger service faults data w"
| "dispatch logger service (Frame556 faults data) w = listener_556 logger service faults data w"

fun dispatch_all :: "Logger \<Rightarrow> P2PQuakeService \<Rightarrow> Frame list \<Rightarrow> World \<Rightarrow> unit outcome" where
  "dispatch_all logger service [] w = returns () w"
| "dispatch_all logger service (frame # frames) w =
    and_then (dispatch logger service frame w) (\<lambda>u w. dispatch_all logger service frames w)"

section \<open>Orchestrator (src/index.ts)\<close>

text \<open>
  Each registered handler is \<open>try { body } catch (error) { ... }\<close>; the bodies are named
  so that what a body throws can be told from what its handler returns.
\<close>

definition main_quake_body ::
  "Logger \<Rightarrow> Config \<Rightarrow> Runtime \<Rightarrow> SlackService \<Rightarrow> JMAQuake Handler" where
  "main_quake_body logger config rt slackService faults quake w =
    and_then (evaluate faults Classification (maxScale (earthquake quake)) w)
      (\<lambda>maxIntensity w.
         (let w = logger_log logger INFO ''Earthquake information received'' w
          in and_then
               (evaluate faults Filtering (shouldNotify maxIntensity (minIntensity config)) w)
               (\<lambda>notify w.
                  if \<not> notify
                  then returns ()
                    (logger_log logger DEBUG
                       ''Earthquake intensity below threshold, skipping notification'' w)
                  else
                    and_then
                      (evaluate faults Formatting (formatQuakeMessage config rt quake) w)
                      (\<lambda>blocks w.
                         and_then (sendMessage logger config slackService blocks w)
                           (\<lambda>u w.
                              returns ()
                                (logger_log logger INFO
                                   ''Earthquake notification sent successfully'' w))))))"

definition main_quake_handler ::
  "Logger \<Rightarrow> Config \<Rightarrow> Runtime \<Rightarrow> SlackService \<Rightarrow> JMAQuake Handler" where
  "main_quake_handler logger config rt slackService faults quake w =
    try_catch (main_quake_body logger config rt slackService faults quake w)
      (\<lambda>error w.
         if instanceof_Error error
         then returns ()
           (logger_log logger ERROR ''Failed to process earthquake information'' w)
         else returns () w)"

definition main_tsunami_body ::
  "Logger \<Rightarrow> Config \<Rightarrow> Runtime \<Rightarrow> SlackService \<Rightarrow> JMATsunami Handler" where
  "main_tsunami_body logger config rt slackService faults tsunami w =
    and_then (evaluate faults Classification () w)
      (\<lambda>u w.
         (let w = logger_log logger INFO ''Tsunami information received'' w
          in and_then
               (evaluate faults Formatting (formatTsunamiMessage config rt tsunami) w)
               (\<lambda>blocks w.
                  and_then (sendMessage logger config slackService blocks w)
                    (\<lambda>u w.
                       returns ()
                         (logger_log logger INFO
                            ''Tsunami notification sent successfully'' w)))))"

definition main_tsunami_handler ::
  "Logger \<Rightarrow> Config \<Rightarrow> Runtime \<Rightarrow> SlackService \<Rightarrow> JMATsunami Handler" where
  "main_tsunami_handler logger config rt slackService faults tsunami w =
    try_catch (main_tsunami_body logger config rt slackService faults tsunami w)
      (\<lambda>error w.
         if instanceof_Error error
         then returns () (logger_log logger ERROR ''Failed to process tsunami information'' w)
         else returns () w)"

definition main_eew_body ::
  "Logger \<Rightarrow> Config \<Rightarrow> Runtime \<Rightarrow> SlackService \<Rightarrow> EEW Handler" where
  "main_eew_body logger config rt slackService faults eew w =
    and_then (evaluate faults Classification (maxPredictedIntensity eew) w)
      (\<lambda>maxIntensity w.
         (let w = logger_log logger INFO ''EEW information received'' w
          in and_then
               (evaluate faults Formatting (formatEEWMessage config rt eew) w)
               (\<lambda>blocks w.
                  and_then (sendMessage logger config slackService blocks w)
                    (\<lambda>u w.
                       returns ()
                         (logger_log logger INFO ''EEW notification sent successfully'' w)))))"

definition main_eew_handler ::
  "Logger \<Rightarrow> Config \<Rightarrow> Runtime \<Rightarrow> SlackService \<Rightarrow> EEW Handler" where
  "main_eew_handler logger config rt slackService faults eew w =
    try_catch (main_eew_body logger config rt slackService faults eew w)
      (\<lambda>error w.
         if instanceof_Error error
         then returns () (logger_log logger ERROR ''Failed to process EEW information'' w)
         else returns () w)"

text \<open>\<open>main\<close> registers the three handlers on a new service before it connects.\<close>

definition main_service ::
  "Logger \<Rightarrow> Config \<Rightarrow> Runtime \<Rightarrow> SlackService \<Rightarrow> P2PQuakeService" where
  "main_service logger config rt slackService =
    (let p2pquakeService = new_P2PQuakeService;
         p2pquakeService =
           onQuake p2pquakeService (main_quake_handler logger config rt slackService);
         p2pquakeService =
           onTsunami p2pquakeService (main_tsunami_handler logger config rt slackService);
         p2pquakeService =
           onEEW p2pquakeService (main_eew_handler logger config rt slackService)
     in p2pquakeService)"

section \<open>The spec's terms\<close>

text \<open>
  The definitions of this section follow the words of the spec, not the program; the
  theorems compare them with the program.
\<close>

subsection \<open>Document layout\<close>

text \<open>
  The spec names the fragments of a document and their order: header, summary or alert
  line, divider, key facts, divider, category-specific detail, divider, footer. The
  following definitions lay each category's document out in these terms, as labelled
  fragments, an absent fragment being left out. The cancellation notice of a tsunami
  document is the one fragment outside the spec's list and has a label of its own.
\<close>

datatype Fragment =
  Header | Summary | DividerFragment | KeyFacts | Detail | Footer | CancelNotice

definition canonical_order :: "Fragment list" where
  "canonical_order =
    [Header, Summary, DividerFragment, KeyFacts, DividerFragment, Detail, DividerFragment,
     Footer]"

definition quake_fragments ::
  "Config \<Rightarrow> Runtime \<Rightarrow> JMAQuake \<Rightarrow> (Fragment \<times> KnownBlock list) list" where
  "quake_fragments config rt quake =
    [(Header, [quake_header config]),
     (Summary, [quake_alert]),
     (DividerFragment, [Divider]),
     (KeyFacts,
      [quake_max_intensity (maxScale (earthquake quake)),
       SectionFields (map Mrkdwn (quake_earthquakeInfo rt quake))])] @
    (case points quake of
       Some pts \<Rightarrow>
         if pts \<noteq> []
         then [(DividerFragment, [Divider]),
               (Detail, [quake_observation (formatObservationPoints pts)])]
         else []
     | None \<Rightarrow> []) @
    [(DividerFragment, [Divider]), (Footer, [quake_footer rt quake])]"

definition tsunami_fragments ::
  "Config \<Rightarrow> Runtime \<Rightarrow> JMATsunami \<Rightarrow> (Fragment \<times> KnownBlock list) list" where
  "tsunami_fragments config rt tsunami =
    [(Header, [tsunami_header config]),
     (Summary, [tsunami_alert]),
     (DividerFragment, [Divider])] @
    (if tsunami_cancelled tsunami then [(CancelNotice, [tsunami_cancel_notice])] else []) @
    (case tsunami_areas tsunami of
       Some areas \<Rightarrow>
         if areas \<noteq> []
         then [(Detail, [tsunami_forecast (join newline (map tsunami_area_line areas))])]
         else []
     | None \<Rightarrow> []) @
    [(DividerFragment, [Divider]), (Footer, [tsunami_footer rt tsunami])]"

definition eew_fragments ::
  "Config \<Rightarrow> Runtime \<Rightarrow> EEW \<Rightarrow> (Fragment \<times> KnownBlock list) list" where
  "eew_fragments config rt eew =
    [(Header, [eew_header config (eew_title eew) (eew_imageFilename eew)]),
     (Summary, [eew_alert (eew_alertText eew)]),
     (DividerFragment, [Divider])] @
    (if eew_eewInfo rt eew \<noteq> []
     then [(KeyFacts, [SectionFields (map Mrkdwn (eew_eewInfo rt eew))])]
     else []) @
    (case eew_areas eew of
       Some areas \<Rightarrow>
         if areas \<noteq> [] \<and> \<not> eew_cancelled eew
         then [(DividerFragment, [Divider]),
               (Detail,
                [eew_area_detail (join newline (map (eew_area_line rt) (take 15 areas)))
                   (eew_remaining areas)])]
         else []
     | None \<Rightarrow> []) @
    [(DividerFragment, [Divider]),
     (Footer,
      [eew_footer rt eew
         (if eew_test eew then ja_training else ja_ordinal @ issue_serial eew @ ja_report)])]"

subsection \<open>Observation-point groups\<close>

text \<open>
  The spec's rendering of the observation points: one line per intensity ordinal that
  occurs, the ordinals in descending order; a line lists the locations of the points
  with exactly that ordinal in input order, at most the first ten, and when there are
  more than ten it ends with a marker that counts the rest.
\<close>

definition spec_group_order :: "ObservationPoint list \<Rightarrow> SeismicIntensity list" where
  "spec_group_order pts = rev (sort (remdups (map scale pts)))"

definition spec_group_line :: "ObservationPoint list \<Rightarrow> SeismicIntensity \<Rightarrow> string" where
  "spec_group_line pts s =
    (let locations = map addr (filter (\<lambda>p. scale p = s) pts)
     in ''*'' @ intensityToString s @ ''*: '' @ join ja_list_comma (take 10 locations) @
        (if length locations > 10
         then '' '' @ ja_other @ showNat (length locations - 10) @ ja_places
         else []))"

subsection \<open>Early-warning variants and area detail\<close>

datatype EEWVariant = CancelledVariant | TrainingVariant | WarningVariant | DetectionVariant

text \<open>
  The derived maximum predicted intensity of the spec: the maximum of the areas'
  upper bounds, an absent bound and an absent or empty area list counting as 0.
\<close>

definition spec_max_predicted :: "EEW \<Rightarrow> SeismicIntensity" where
  "spec_max_predicted eew =
    Max (insert 0
      (set (map (\<lambda>area. case scaleTo area of Some s \<Rightarrow> s | None \<Rightarrow> 0)
             (case eew_areas eew of Some areas \<Rightarrow> areas | None \<Rightarrow> []))))"

definition spec_eew_variant :: "EEW \<Rightarrow> EEWVariant" where
  "spec_eew_variant eew =
    (if eew_cancelled eew then CancelledVariant
     else if eew_test eew then TrainingVariant
     else if spec_max_predicted eew \<ge> 50 then WarningVariant
     else DetectionVariant)"

fun variant_title :: "EEWVariant \<Rightarrow> string" where
  "variant_title CancelledVariant = ja_eew_cancel"
| "variant_title TrainingVariant = ja_eew_training"
| "variant_title WarningVariant = ja_eew"
| "variant_title DetectionVariant = ja_eew"

fun variant_image :: "EEWVariant \<Rightarrow> string" where
  "variant_image CancelledVariant = ''no.png''"
| "variant_image TrainingVariant = ''mega.png''"
| "variant_image WarningVariant = ''warning.png''"
| "variant_image DetectionVariant = ''mega.png''"

fun variant_alert :: "EEWVariant \<Rightarrow> string" where
  "variant_alert CancelledVariant = ja_eew_was_cancelled"
| "variant_alert TrainingVariant = ''**'' @ ja_this_is_training @ ''**''"
| "variant_alert WarningVariant = ''**'' @ ja_beware_strong_shaking @ ''**''"
| "variant_alert DetectionVariant = ja_eew_received"

text \<open>An area-detail block is a plain section whose text starts with the area heading.\<close>

fun is_area_detail :: "KnownBlock \<Rightarrow> bool" where
  "is_area_detail (Section (Mrkdwn t) None) =
     prefix (''*'' @ ja_predicted_shindo @ ''*'' @ newline) t"
| "is_area_detail b = False"

section \<open>Sample events\<close>

text \<open>Concrete inputs at which the theorems below are instantiated.\<close>

definition sample_config :: Config where
  "sample_config =
    \<lparr>slackBotToken = ''xoxb-token'', slackChannelId = ''C0123456789'', minIntensity = 30,
     nodeEnv = production, githubImageBaseUrl = ''https://example.org/public/''\<rparr>"

definition sample_runtime :: Runtime where
  "sample_runtime =
    \<lparr>newDate = (\<lambda>s. Some \<lparr>getFullYear = 2024, getMonth = 0, getDate = 1, getHours = 16,
                             getMinutes = 10\<rparr>),
     toFixed1 = (\<lambda>m. ''7.6'')\<rparr>"

definition sample_point :: "string \<Rightarrow> SeismicIntensity \<Rightarrow> ObservationPoint" where
  "sample_point a s = \<lparr>addr = a, scale = s, isArea = False\<rparr>"

definition sample_points :: "ObservationPoint list" where
  "sample_points =
    sample_point ''a'' 40 # sample_point ''x'' 50 #
    map (\<lambda>a. sample_point a 40) [''b'', ''c'', ''d'', ''e'', ''f'', ''g'', ''h'', ''i'', ''j'', ''k'']"

definition sample_quake :: JMAQuake where
  "sample_quake =
    \<lparr>quake_time = ''2024/01/01 16:12:00'',
     earthquake =
       \<lparr>earthquake_time = ''2024/01/01 16:10:00'', hypocenter = None, maxScale = 50,
        domesticTsunami = Some DT_Checking\<rparr>,
     points = Some sample_points\<rparr>"

definition sample_tsunami :: JMATsunami where
  "sample_tsunami =
    \<lparr>tsunami_cancelled = True, tsunami_time = ''2024/01/01 16:12:00'',
     tsunami_areas =
       Some [\<lparr>tsunami_area_name = ''Noto'', grade = Warning, immediate = True\<rparr>]\<rparr>"

definition sample_area :: "string \<Rightarrow> EEWArea" where
  "sample_area a =
    \<lparr>eew_area_name = a, scaleFrom = Some 0, scaleTo = Some 45, arrivalTime = None\<rparr>"

definition sample_areas :: "EEWArea list" where
  "sample_areas =
    map sample_area
      [''a'', ''b'', ''c'', ''d'', ''e'', ''f'', ''g'', ''h'', ''i'', ''j'', ''k'', ''l'', ''m'',
       ''n'', ''o'', ''p'']"

definition sample_eew :: EEW where
  "sample_eew =
    \<lparr>eew_cancelled = False, eew_test = False, issue_serial = ''3'',
     eew_time = ''2024/01/01 16:10:30'', eew_earthquake = None,
     eew_areas = Some sample_areas\<rparr>"

definition sample_logger :: Logger where
  "sample_logger = new_Logger False"

definition accepting_slack :: SlackService where
  "accepting_slack =
    \<lparr>postMessage = (\<lambda>blocks. Inr \<lparr>ok = True, result_error = [], ts = ''1704093120.000100''\<rparr>),
     channelId = ''C0123456789''\<rparr>"

definition empty_world :: World where
  "empty_world = \<lparr>console = [], posted = []\<rparr>"

definition formatting_fault :: "thrown \<Rightarrow> Faults" where
  "formatting_fault e = (\<lambda>stage. if stage = Formatting then Some e else None)"

definition rejecting_slack :: "thrown \<Rightarrow> SlackService" where
  "rejecting_slack e = \<lparr>postMessage = (\<lambda>blocks. Inl e), channelId = ''C0123456789''\<rparr>"

section \<open>Properties of the intensity classifier\<close>

lemma SeismicIntensity_values_eq:
  "SeismicIntensity_values = [-1, 0, 10, 20, 30, 40, 45, 50, 55, 60, 70, 99]"
  by (simp add: SeismicIntensity_values_def INTENSITY_MAP_def)

text \<open>
  C1. \<open>shouldNotify\<close> is false on the unknown sentinel (-1) and on the abnormal
  sentinel (99) whatever the threshold; on every other intensity ordinal it is true
  exactly when the ordinal is at least the threshold, and so it is monotonic in the
  ordinal.
\<close>

theorem shouldNotify_sentinels_and_threshold:
  "(i = -1 \<or> i = 99 \<longrightarrow> shouldNotify i t = False) \<and>
   (i \<in> set SeismicIntensity_values \<and> i \<noteq> -1 \<and> i \<noteq> 99 \<longrightarrow>
      shouldNotify i t = (i \<ge> t)) \<and>
   (i \<in> set SeismicIntensity_values \<and> i \<noteq> -1 \<and> i \<noteq> 99 \<and>
    j \<in> set SeismicIntensity_values \<and> j \<noteq> -1 \<and> j \<noteq> 99 \<and> i \<le> j \<and> shouldNotify i t
      \<longrightarrow> shouldNotify j t)"
  by (auto simp add: shouldNotify_def SeismicIntensity_values_eq)

theorem shouldNotify_sentinels_and_threshold_witness:
  "shouldNotify (-1) 10 = False \<and> shouldNotify 99 10 = False \<and>
   shouldNotify 40 30 = True \<and> shouldNotify 20 30 = False \<and> shouldNotify 45 30 = True"
  using shouldNotify_sentinels_and_threshold [of "-1" 10 0]
    shouldNotify_sentinels_and_threshold [of 99 10 0]
    shouldNotify_sentinels_and_threshold [of 40 30 45]
    shouldNotify_sentinels_and_threshold [of 20 30 20]
  by (simp add: SeismicIntensity_values_eq)

text \<open>
  C9. The colour banding does not exclude the sentinels: the unknown sentinel (-1)
  gets the low colour, the bucket of every ordinal up to 30, and the abnormal sentinel
  (99) gets the severe colour, while neither sentinel is ever notify-worthy.
\<close>

theorem getIntensityColor_sentinels:
  "getIntensityColor (-1) = INTENSITY_COLORS_low \<and>
   (i \<le> 30 \<longrightarrow> getIntensityColor i = getIntensityColor (-1)) \<and>
   getIntensityColor 99 = INTENSITY_COLORS_severe \<and>
   (i \<ge> 55 \<longrightarrow> getIntensityColor i = getIntensityColor 99) \<and>
   shouldNotify (-1) t = False \<and> shouldNotify 99 t = False"
  by (simp add: getIntensityColor_def shouldNotify_def)

theorem getIntensityColor_sentinels_witness:
  "getIntensityColor (-1) = ''#3AA3E3'' \<and> getIntensityColor 30 = ''#3AA3E3'' \<and>
   getIntensityColor 99 = ''#E2231A'' \<and> getIntensityColor 55 = ''#E2231A'' \<and>
   shouldNotify (-1) 10 = False \<and> shouldNotify 99 10 = False"
  using getIntensityColor_sentinels [of 30 10] getIntensityColor_sentinels [of 55 10]
  by (simp add: INTENSITY_COLORS_low_def INTENSITY_COLORS_severe_def)

lemma map_of_STRING_TO_INTENSITY_None:
  "map_of STRING_TO_INTENSITY s = None \<longleftrightarrow> s \<notin> set valid_values \<union> set localized_values"
  by (auto simp add: map_of_eq_None_iff STRING_TO_INTENSITY_def valid_values_def
      localized_values_def)

lemma parseIntensityString_valid_values:
  "map parseIntensityString valid_values = map (Inr \<circ> Own) [10, 20, 30, 40, 45, 50, 55, 60, 70]"
  by (simp add: parseIntensityString_def js_get_def STRING_TO_INTENSITY_def valid_values_def
      ja_defs)

lemma parseIntensityString_localized_values:
  "map parseIntensityString localized_values = map (Inr \<circ> Own) [45, 50, 55, 60]"
  by (simp add: parseIntensityString_def js_get_def STRING_TO_INTENSITY_def
      localized_values_def ja_defs)

lemma parseIntensityString_bij:
  "bij_betw parseIntensityString (set valid_values)
     ((Inr \<circ> Own) ` {10, 20, 30, 40, 45, 50, 55, 60, 70})"
proof -
  have "distinct (map parseIntensityString valid_values)"
    unfolding parseIntensityString_valid_values by simp
  then have "inj_on parseIntensityString (set valid_values)"
    by (simp add: distinct_map)
  moreover have "parseIntensityString ` set valid_values =
      (Inr \<circ> Own) ` {10, 20, 30, 40, 45, 50, 55, 60, 70}"
  proof -
    have "parseIntensityString ` set valid_values = set (map parseIntensityString valid_values)"
      by simp
    also have "\<dots> = (Inr \<circ> Own) ` {10, 20, 30, 40, 45, 50, 55, 60, 70}"
      unfolding parseIntensityString_valid_values by simp
    finally show ?thesis .
  qed
  ultimately show ?thesis
    by (simp add: bij_betw_def)
qed

lemma parseIntensityString_Own:
  "parseIntensityString s = Inr (Own i) \<Longrightarrow> s \<in> set valid_values \<union> set localized_values"
  using map_of_STRING_TO_INTENSITY_None [of s]
  by (auto simp add: parseIntensityString_def js_get_def split: option.splits if_splits)

lemma parseIntensityString_fails:
  assumes "s \<notin> set valid_values \<union> set localized_values"
    and "s \<notin> set Object_prototype_keys"
  shows "parseIntensityString s =
    Inl (Error (''Invalid intensity string: '' @ s @ ''. Valid values: '' @
                join '', '' valid_values))"
proof -
  have "js_get STRING_TO_INTENSITY s = None"
    using assms map_of_STRING_TO_INTENSITY_None [of s] by (simp add: js_get_def)
  moreover have "join '', '' valid_values = ''1, 2, 3, 4, 5-, 5+, 6-, 6+, 7''"
    by (simp add: valid_values_def)
  ultimately show ?thesis
    by (simp add: parseIntensityString_def)
qed

text \<open>
  C3, as the spec states it, fails twice. It counts eight canonical tokens where the
  table and the error message have nine, and it lets every other string fail, whereas
  the name of a member of \<open>Object.prototype\<close> is found by the lookup and returned.
\<close>

theorem parseIntensityString_counterexample:
  "card (set valid_values) \<noteq> 8 \<and>
   ''toString'' \<notin> set valid_values \<union> set localized_values \<and>
   parseIntensityString ''toString'' = Inr (Inherited ''toString'')"
  by (simp add: valid_values_def localized_values_def parseIntensityString_def js_get_def
      STRING_TO_INTENSITY_def Object_prototype_keys_def ja_defs)

text \<open>
  C3, amended. \<open>parseIntensityString\<close> maps the nine canonical tokens 1, 2, 3, 4, 5-,
  5+, 6-, 6+, 7 one-to-one onto the ordinals 10, 20, 30, 40, 45, 50, 55, 60, 70 and the
  four localized tokens onto 45, 50, 55, 60; it returns an ordinal on no other
  string; and on every other string that does not name a member of
  \<open>Object.prototype\<close> it throws an Error whose message quotes the input and lists the
  nine canonical tokens.
\<close>

theorem parseIntensityString_tokens:
  "map parseIntensityString valid_values =
     map (Inr \<circ> Own) [10, 20, 30, 40, 45, 50, 55, 60, 70] \<and>
   map parseIntensityString localized_values = map (Inr \<circ> Own) [45, 50, 55, 60] \<and>
   length valid_values = 9 \<and>
   bij_betw parseIntensityString (set valid_values)
     ((Inr \<circ> Own) ` {10, 20, 30, 40, 45, 50, 55, 60, 70}) \<and>
   (parseIntensityString s = Inr (Own i) \<longrightarrow> s \<in> set valid_values \<union> set localized_values) \<and>
   (s \<notin> set valid_values \<union> set localized_values \<and> s \<notin> set Object_prototype_keys \<longrightarrow>
      parseIntensityString s =
        Inl (Error (''Invalid intensity string: '' @ s @ ''. Valid values: '' @
                    join '', '' valid_values)))"
  using parseIntensityString_valid_values parseIntensityString_localized_values
    parseIntensityString_bij parseIntensityString_Own [of s i] parseIntensityString_fails [of s]
  by (simp add: valid_values_def)

theorem parseIntensityString_tokens_witness:
  "parseIntensityString ''5-'' = Inr (Own 45) \<and>
   ''5-'' \<in> set valid_values \<union> set localized_values \<and>
   ''8'' \<notin> set valid_values \<union> set localized_values \<and>
   ''8'' \<notin> set Object_prototype_keys \<and>
   parseIntensityString ''8'' =
     Inl (Error ''Invalid intensity string: 8. Valid values: 1, 2, 3, 4, 5-, 5+, 6-, 6+, 7'')"
  using parseIntensityString_tokens [of "''5-''" 45] parseIntensityString_tokens [of "''8''" 0]
  by (simp add: valid_values_def localized_values_def Object_prototype_keys_def ja_defs)

section \<open>Properties of the message formatter\<close>

subsection \<open>The blocks of each document\<close>

lemma formatQuakeMessage_blocks:
  "formatQuakeMessage config rt quake =
    [quake_header config, quake_alert, Divider,
     quake_max_intensity (maxScale (earthquake quake)),
     SectionFields (map Mrkdwn (quake_earthquakeInfo rt quake))] @
    (case points quake of
       Some pts \<Rightarrow>
         if pts \<noteq> [] then [Divider, quake_observation (formatObservationPoints pts)] else []
     | None \<Rightarrow> []) @
    [Divider, quake_footer rt quake]"
  by (simp add: formatQuakeMessage_def push_def splice_insert_def Let_def split: option.split)

lemma formatTsunamiMessage_blocks:
  "formatTsunamiMessage config rt tsunami =
    [tsunami_header config, tsunami_alert, Divider] @
    (if tsunami_cancelled tsunami then [tsunami_cancel_notice] else []) @
    (case tsunami_areas tsunami of
       Some areas \<Rightarrow>
         if areas \<noteq> [] then [tsunami_forecast (join newline (map tsunami_area_line areas))]
         else []
     | None \<Rightarrow> []) @
    [Divider, tsunami_footer rt tsunami]"
  by (simp add: formatTsunamiMessage_def push_def Let_def split: option.split)

lemma formatEEWMessage_blocks:
  "formatEEWMessage config rt eew =
    [eew_header config (eew_title eew) (eew_imageFilename eew), eew_alert (eew_alertText eew),
     Divider] @
    (if eew_eewInfo rt eew \<noteq> [] then [SectionFields (map Mrkdwn (eew_eewInfo rt eew))]
     else []) @
    (case eew_areas eew of
       Some areas \<Rightarrow>
         if areas \<noteq> [] \<and> \<not> eew_cancelled eew
         then [Divider,
               eew_area_detail (join newline (map (eew_area_line rt) (take 15 areas)))
                 (eew_remaining areas)]
         else []
     | None \<Rightarrow> []) @
    [Divider,
     eew_footer rt eew
       (if eew_test eew then ja_training else ja_ordinal @ issue_serial eew @ ja_report)]"
  by (simp add: formatEEWMessage_def push_def Let_def split: option.split)

subsection \<open>Fragment order\<close>

text \<open>
  C7. Each of the three builders emits its fragments in the order header, summary or
  alert line, divider, key facts, divider, category-specific detail, divider, footer,
  whatever optional fields are populated: the document is the concatenation of the
  labelled fragments of the spec's layout, whose labels always form a subsequence of
  that order (fragments of absent fields are missing, none changes place) and are the
  whole order when the optional parts are present. The tsunami builder's cancellation
  notice, which is not among the spec's fragments, is set aside.
\<close>

theorem fragment_order_invariant:
  "formatQuakeMessage config rt quake = concat (map snd (quake_fragments config rt quake)) \<and>
   subseq (map fst (quake_fragments config rt quake)) canonical_order \<and>
   (points quake = Some pts \<and> pts \<noteq> [] \<longrightarrow>
      map fst (quake_fragments config rt quake) = canonical_order) \<and>
   formatTsunamiMessage config rt tsunami =
     concat (map snd (tsunami_fragments config rt tsunami)) \<and>
   subseq (filter (\<lambda>f. f \<noteq> CancelNotice) (map fst (tsunami_fragments config rt tsunami)))
     canonical_order \<and>
   formatEEWMessage config rt eew = concat (map snd (eew_fragments config rt eew)) \<and>
   subseq (map fst (eew_fragments config rt eew)) canonical_order \<and>
   (eew_eewInfo rt eew \<noteq> [] \<and> eew_areas eew = Some areas \<and> areas \<noteq> [] \<and>
    \<not> eew_cancelled eew \<longrightarrow>
      map fst (eew_fragments config rt eew) = canonical_order)"
proof -
  have "formatQuakeMessage config rt quake = concat (map snd (quake_fragments config rt quake))"
    by (simp add: formatQuakeMessage_blocks quake_fragments_def split: option.split)
  moreover have "subseq (map fst (quake_fragments config rt quake)) canonical_order"
    by (simp add: quake_fragments_def canonical_order_def split: option.split)
  moreover have "points quake = Some pts \<and> pts \<noteq> [] \<longrightarrow>
      map fst (quake_fragments config rt quake) = canonical_order"
    by (simp add: quake_fragments_def canonical_order_def)
  moreover have "formatTsunamiMessage config rt tsunami =
      concat (map snd (tsunami_fragments config rt tsunami))"
    by (simp add: formatTsunamiMessage_blocks tsunami_fragments_def split: option.split)
  moreover have "subseq
      (filter (\<lambda>f. f \<noteq> CancelNotice) (map fst (tsunami_fragments config rt tsunami)))
      canonical_order"
    by (simp add: tsunami_fragments_def canonical_order_def split: option.split)
  moreover have "formatEEWMessage config rt eew = concat (map snd (eew_fragments config rt eew))"
    by (simp add: formatEEWMessage_blocks eew_fragments_def split: option.split)
  moreover have "subseq (map fst (eew_fragments config rt eew)) canonical_order"
    by (simp add: eew_fragments_def canonical_order_def split: option.split)
  moreover have "eew_eewInfo rt eew \<noteq> [] \<and> eew_areas eew = Some areas \<and> areas \<noteq> [] \<and>
      \<not> eew_cancelled eew \<longrightarrow> map fst (eew_fragments config rt eew) = canonical_order"
    by (simp add: eew_fragments_def canonical_order_def)
  ultimately show ?thesis
    by blast
qed

theorem fragment_order_invariant_witness:
  "points sample_quake = Some sample_points \<and> sample_points \<noteq> [] \<and>
   map fst (quake_fragments sample_config sample_runtime sample_quake) = canonical_order \<and>
   eew_eewInfo sample_runtime sample_eew \<noteq> [] \<and> eew_areas sample_eew = Some sample_areas \<and>
   sample_areas \<noteq> [] \<and> \<not> eew_cancelled sample_eew \<and>
   map fst (eew_fragments sample_config sample_runtime sample_eew) = canonical_order \<and>
   length (formatTsunamiMessage sample_config sample_runtime sample_tsunami) = 7"
  using fragment_order_invariant [of sample_config sample_runtime sample_quake sample_points
      sample_tsunami sample_eew sample_areas]
  by (simp add: sample_quake_def sample_points_def sample_eew_def sample_areas_def
      eew_eewInfo_def maxPredictedIntensity_def sample_area_def Let_def push_def
      tsunami_fragments_def sample_tsunami_def)

subsection \<open>Observation points\<close>

lemma locations_in_group_point:
  "locations_in (group_point g p) s =
    (if s = scale p then locations_in g s @ [addr p] else locations_in g s)"
  by (simp add: locations_in_def group_point_def push_def update_conv' Let_def)

lemma locations_in_foldl:
  "locations_in (foldl group_point g pts) s =
     locations_in g s @ map addr (filter (\<lambda>p. scale p = s) pts)"
  by (induction pts arbitrary: g) (auto simp add: locations_in_group_point)

lemma keys_group_point: "fst ` set (group_point g p) = insert (scale p) (fst ` set g)"
  by (simp add: group_point_def Let_def dom_update)

lemma keys_foldl: "fst ` set (foldl group_point g pts) = fst ` set g \<union> scale ` set pts"
  by (induction pts arbitrary: g) (auto simp add: keys_group_point)

lemma distinct_group_point: "distinct (map fst g) \<Longrightarrow> distinct (map fst (group_point g p))"
  by (simp add: group_point_def Let_def distinct_update)

lemma distinct_foldl:
  "distinct (map fst g) \<Longrightarrow> distinct (map fst (foldl group_point g pts))"
  by (induction pts arbitrary: g) (auto simp add: distinct_group_point)

text \<open>Sorting distinct keys with the comparator \<open>b - a\<close> gives the ascending sort reversed.\<close>

lemma sort_descending:
  fixes xs :: "int list"
  assumes "distinct xs"
  shows "sort_key uminus xs = rev (sort xs)"
proof -
  let ?ys = "sort_key uminus xs"
  have "sorted (map uminus ?ys)"
    by (rule sorted_sort_key)
  then have "sorted_wrt (\<lambda>x y. y \<le> x) ?ys"
    by (simp add: sorted_map)
  then have "sorted (rev ?ys)"
    by (simp add: sorted_wrt_rev)
  moreover have "distinct (rev ?ys)"
    using assms by simp
  moreover have "set (rev ?ys) = set (sort xs)"
    by simp
  ultimately have "rev ?ys = sort xs"
    using assms by (intro sorted_distinct_set_unique) simp_all
  then have "rev (rev ?ys) = rev (sort xs)"
    by simp
  then show ?thesis
    by simp
qed

lemma sort_same_set:
  fixes xs ys :: "int list"
  assumes "distinct xs" and "set xs = set ys"
  shows "sort xs = sort (remdups ys)"
  using assms by (intro sorted_distinct_set_unique) simp_all

lemma sortedIntensities_eq:
  "sort_key uminus (map fst (foldl group_point [] pts)) = spec_group_order pts"
proof -
  let ?ks = "map fst (foldl group_point [] pts)"
  have d: "distinct ?ks"
    by (rule distinct_foldl) simp
  have s: "set ?ks = set (map scale pts)"
    using keys_foldl [of "[]" pts] by simp
  show ?thesis
    unfolding spec_group_order_def sort_descending [OF d] sort_same_set [OF d s] ..
qed

lemma observation_line_eq:
  "observation_line (foldl group_point [] pts) s = spec_group_line pts s"
proof -
  have "locations_in (foldl group_point [] pts) s = map addr (filter (\<lambda>p. scale p = s) pts)"
    by (simp add: locations_in_foldl) (simp add: locations_in_def)
  then show ?thesis
    by (simp add: observation_line_def spec_group_line_def maxDisplay_def Let_def)
qed

lemma formatObservationPoints_spec:
  "formatObservationPoints pts = join newline (map (spec_group_line pts) (spec_group_order pts))"
proof -
  have "observation_line (foldl group_point [] pts) = spec_group_line pts"
    by (rule ext) (rule observation_line_eq)
  then show ?thesis
    by (simp add: formatObservationPoints_def Let_def sortedIntensities_eq)
qed

lemma spec_group_order_descending:
  "sorted_wrt (\<lambda>a b. a > b) (spec_group_order pts) \<and> set (spec_group_order pts) = scale ` set pts"
proof -
  have "sorted_wrt (\<lambda>a b. a < b) (sort (remdups (map scale pts)))"
    by (simp add: strict_sorted_iff)
  then show ?thesis
    by (simp add: spec_group_order_def sorted_wrt_rev)
qed

text \<open>
  C5. For a quake event with a non-empty list of observation points, the block after
  the key facts and a divider lists the points grouped by exact intensity ordinal:
  one line per ordinal that occurs, in strictly descending order of the ordinal; a
  line lists the locations of its group in input order; a group of more than ten
  shows exactly its first ten followed by a marker counting the rest, and a group of at
  most ten shows all its locations and no marker.
\<close>

theorem formatQuakeMessage_observation_groups:
  assumes "points quake = Some pts" and "pts \<noteq> []"
  shows "formatQuakeMessage config rt quake ! 6 =
      quake_observation (join newline (map (spec_group_line pts) (spec_group_order pts))) \<and>
    sorted_wrt (\<lambda>a b. a > b) (spec_group_order pts) \<and>
    set (spec_group_order pts) = scale ` set pts \<and>
    (length (filter (\<lambda>p. scale p = s) pts) \<le> 10 \<longrightarrow>
       spec_group_line pts s =
         ''*'' @ intensityToString s @ ''*: '' @
         join ja_list_comma (map addr (filter (\<lambda>p. scale p = s) pts))) \<and>
    (length (filter (\<lambda>p. scale p = s) pts) > 10 \<longrightarrow>
       spec_group_line pts s =
         ''*'' @ intensityToString s @ ''*: '' @
         join ja_list_comma (take 10 (map addr (filter (\<lambda>p. scale p = s) pts))) @
         '' '' @ ja_other @ showNat (length (filter (\<lambda>p. scale p = s) pts) - 10) @ ja_places)"
proof -
  have "formatQuakeMessage config rt quake ! 6 =
      quake_observation (formatObservationPoints pts)"
    using assms by (simp add: formatQuakeMessage_blocks)
  then show ?thesis
    using spec_group_order_descending [of pts]
    by (simp add: formatObservationPoints_spec spec_group_line_def Let_def)
qed

theorem formatQuakeMessage_observation_groups_witness:
  "points sample_quake = Some sample_points \<and> sample_points \<noteq> [] \<and>
   formatQuakeMessage sample_config sample_runtime sample_quake ! 6 =
     quake_observation
       (''*'' @ ja_shindo @ ''5'' @ ja_strong @ ''*: x'' @ newline @
        ''*'' @ ja_shindo @ ''4*: '' @
        join ja_list_comma [''a'', ''b'', ''c'', ''d'', ''e'', ''f'', ''g'', ''h'', ''i'', ''j''] @
        '' '' @ ja_other @ ''1'' @ ja_places) \<and>
   spec_group_order sample_points = [50, 40]"
  using formatQuakeMessage_observation_groups [of sample_quake sample_points sample_config
      sample_runtime 40]
  by (simp add: sample_quake_def sample_points_def sample_point_def spec_group_order_def
      spec_group_line_def intensityToString_def INTENSITY_MAP_def showNat.simps)

subsection \<open>Early-warning variants\<close>

lemma Max_insert_max:
  fixes S :: "int set"
  assumes "finite S"
  shows "Max (insert (max m y) S) = Max (insert m (insert y S))"
proof (cases "S = {}")
  case True
  then show ?thesis
    by simp
next
  case False
  with assms show ?thesis
    by (simp add: max.assoc)
qed

lemma foldl_max:
  fixes f :: "'a \<Rightarrow> int"
  shows "foldl (\<lambda>mx a. max mx (f a)) m xs = Max (insert m (f ` set xs))"
proof (induction xs arbitrary: m)
  case Nil
  then show ?case
    by simp
next
  case (Cons x xs)
  have "Max (insert (max m (f x)) (f ` set xs)) = Max (insert m (insert (f x) (f ` set xs)))"
    by (rule Max_insert_max) simp
  with Cons show ?case
    by simp
qed

lemma or_number_0: "or_number x 0 = (case x of Some s \<Rightarrow> s | None \<Rightarrow> 0)"
  by (cases x) simp_all

lemma maxPredictedIntensity_spec: "maxPredictedIntensity eew = spec_max_predicted eew"
proof (cases "eew_areas eew")
  case None
  then show ?thesis
    by (simp add: maxPredictedIntensity_def spec_max_predicted_def)
next
  case (Some areas)
  then show ?thesis
    by (simp add: maxPredictedIntensity_def spec_max_predicted_def foldl_max or_number_0)
qed

lemma eew_selection_by_variant:
  "eew_title eew = variant_title (spec_eew_variant eew) \<and>
   eew_imageFilename eew = variant_image (spec_eew_variant eew) \<and>
   eew_alertText eew = variant_alert (spec_eew_variant eew)"
  by (simp add: eew_title_def eew_imageFilename_def eew_alertText_def spec_eew_variant_def
      isWarning_def maxPredictedIntensity_spec)

lemma variant_alert_inj: "inj variant_alert"
proof (rule injI)
  fix x y
  assume "variant_alert x = variant_alert y"
  then show "x = y"
    by (cases x; cases y) (simp_all add: ja_defs)
qed

text \<open>
  C4. For every EEW event the title, the accessory image and the alert sentence of the
  first two blocks are those of exactly one of the four variants cancelled, training,
  warning and plain detection (the four alert sentences being pairwise different):
  cancelled wins over training, training over warning, and among the events that are
  neither cancelled nor training the warning variant applies exactly when the derived
  maximum predicted intensity, the maximum over the areas of the upper bound \<open>scaleTo\<close>
  with 0 for an absent one, is at least 50.
\<close>

theorem eew_variant_selection:
  "formatEEWMessage config rt eew ! 0 =
     eew_header config (variant_title (spec_eew_variant eew))
       (variant_image (spec_eew_variant eew)) \<and>
   formatEEWMessage config rt eew ! 1 = eew_alert (variant_alert (spec_eew_variant eew)) \<and>
   inj variant_alert \<and>
   (eew_cancelled eew \<longrightarrow> spec_eew_variant eew = CancelledVariant) \<and>
   (\<not> eew_cancelled eew \<and> eew_test eew \<longrightarrow> spec_eew_variant eew = TrainingVariant) \<and>
   (\<not> eew_cancelled eew \<and> \<not> eew_test eew \<longrightarrow>
      (spec_eew_variant eew = WarningVariant) = (spec_max_predicted eew \<ge> 50) \<and>
      (spec_eew_variant eew = DetectionVariant) = (spec_max_predicted eew < 50)) \<and>
   maxPredictedIntensity eew = spec_max_predicted eew \<and>
   isWarning eew = (spec_max_predicted eew \<ge> 50)"
  using eew_selection_by_variant [of eew] variant_alert_inj
  by (simp add: formatEEWMessage_blocks spec_eew_variant_def isWarning_def
      maxPredictedIntensity_spec)

theorem eew_variant_selection_witness:
  "spec_max_predicted sample_eew = 45 \<and>
   formatEEWMessage sample_config sample_runtime sample_eew ! 1 = eew_alert ja_eew_received \<and>
   spec_max_predicted (sample_eew\<lparr>eew_areas := Some [sample_area ''a''\<lparr>scaleTo := Some 50\<rparr>]\<rparr>) = 50 \<and>
   formatEEWMessage sample_config sample_runtime
     (sample_eew\<lparr>eew_areas := Some [sample_area ''a''\<lparr>scaleTo := Some 50\<rparr>]\<rparr>) ! 0 =
     eew_header sample_config ja_eew ''warning.png'' \<and>
   formatEEWMessage sample_config sample_runtime
     (sample_eew\<lparr>eew_areas := Some [sample_area ''a''\<lparr>scaleTo := Some 50\<rparr>]\<rparr>) ! 1 =
     eew_alert (''**'' @ ja_beware_strong_shaking @ ''**'') \<and>
   formatEEWMessage sample_config sample_runtime
     (sample_eew\<lparr>eew_cancelled := True, eew_test := True\<rparr>) ! 1 =
     eew_alert ja_eew_was_cancelled \<and>
   formatEEWMessage sample_config sample_runtime (sample_eew\<lparr>eew_test := True\<rparr>) ! 0 =
     eew_header sample_config ja_eew_training ''mega.png''"
  using eew_variant_selection [of sample_config sample_runtime sample_eew]
    eew_variant_selection [of sample_config sample_runtime
      "sample_eew\<lparr>eew_areas := Some [sample_area ''a''\<lparr>scaleTo := Some 50\<rparr>]\<rparr>"]
    eew_variant_selection [of sample_config sample_runtime
      "sample_eew\<lparr>eew_cancelled := True, eew_test := True\<rparr>"]
    eew_variant_selection [of sample_config sample_runtime "sample_eew\<lparr>eew_test := True\<rparr>"]
  by (simp add: spec_max_predicted_def spec_eew_variant_def sample_eew_def sample_areas_def
      sample_area_def)

subsection \<open>Early-warning area detail\<close>

lemma formatEEWMessage_area_block:
  assumes "\<not> eew_cancelled eew" and "eew_areas eew = Some areas" and "areas \<noteq> []"
  shows "formatEEWMessage config rt eew ! (length (formatEEWMessage config rt eew) - 3) =
    eew_area_detail (join newline (map (eew_area_line rt) (take 15 areas))) (eew_remaining areas)"
  using assms by (simp add: formatEEWMessage_blocks nth_append)

lemma formatEEWMessage_cancelled:
  assumes "eew_cancelled eew"
  shows "formatEEWMessage config rt eew =
    [eew_header config ja_eew_cancel ''no.png'', eew_alert ja_eew_was_cancelled, Divider] @
    (if eew_eewInfo rt eew \<noteq> [] then [SectionFields (map Mrkdwn (eew_eewInfo rt eew))]
     else []) @
    [Divider,
     eew_footer rt eew
       (if eew_test eew then ja_training else ja_ordinal @ issue_serial eew @ ja_report)]"
  using assms
  by (simp add: formatEEWMessage_blocks eew_title_def eew_imageFilename_def eew_alertText_def
      split: option.split)

lemma sample_eew_eewInfo: "eew_eewInfo sample_runtime sample_eew \<noteq> []"
  by (simp add: eew_eewInfo_def maxPredictedIntensity_def sample_eew_def sample_areas_def
      sample_area_def Let_def push_def)

lemma sample_eew_length:
  "length (formatEEWMessage sample_config sample_runtime sample_eew) = 8"
  using sample_eew_eewInfo
  by (simp add: formatEEWMessage_blocks) (simp add: sample_eew_def sample_areas_def)

lemma sample_eew_block_5:
  "formatEEWMessage sample_config sample_runtime sample_eew ! 5 =
     eew_area_detail
       (join newline (map (eew_area_line sample_runtime) (take 15 sample_areas)))
       (eew_remaining sample_areas)"
  using formatEEWMessage_area_block [of sample_eew sample_areas sample_config sample_runtime]
  by (simp add: sample_eew_length) (simp add: sample_eew_def sample_areas_def)

text \<open>
  C6. For a non-cancelled EEW event with a non-empty area list, the area-detail block
  (the third block from the end, after a divider) lists the first 15 areas at most, one
  line each in input order, and when there are more than 15 appends a remainder that
  counts the others; for a cancelled EEW event no block of the document is an
  area-detail block, however many areas there are.
\<close>

theorem eew_area_detail_cap:
  "(\<not> eew_cancelled eew \<and> eew_areas eew = Some areas \<and> areas \<noteq> [] \<longrightarrow>
      formatEEWMessage config rt eew ! (length (formatEEWMessage config rt eew) - 3) =
        eew_area_detail (join newline (map (eew_area_line rt) (take 15 areas)))
          (if length areas > 15
           then '' '' @ ja_other @ showNat (length areas - 15) @ ja_regions
           else []) \<and>
      length (map (eew_area_line rt) (take 15 areas)) = min 15 (length areas)) \<and>
   (eew_cancelled eew \<longrightarrow>
      (\<forall>b \<in> set (formatEEWMessage config rt eew). \<not> is_area_detail b) \<and>
      formatEEWMessage config rt eew =
        [eew_header config ja_eew_cancel ''no.png'', eew_alert ja_eew_was_cancelled, Divider] @
        (if eew_eewInfo rt eew \<noteq> [] then [SectionFields (map Mrkdwn (eew_eewInfo rt eew))]
         else []) @
        [Divider,
         eew_footer rt eew
           (if eew_test eew then ja_training else ja_ordinal @ issue_serial eew @ ja_report)])"
proof -
  have "\<forall>b \<in> set (formatEEWMessage config rt eew). \<not> is_area_detail b" if "eew_cancelled eew"
    using that
    by (simp add: formatEEWMessage_cancelled eew_header_def eew_alert_def eew_footer_def
        newline_def ja_defs)
  then show ?thesis
    using formatEEWMessage_area_block [of eew areas config rt]
      formatEEWMessage_cancelled [of eew config rt]
    by (simp add: eew_remaining_def min_def)
qed

theorem eew_area_detail_cap_witness:
  "\<not> eew_cancelled sample_eew \<and> eew_areas sample_eew = Some sample_areas \<and>
   sample_areas \<noteq> [] \<and> length sample_areas = 16 \<and>
   formatEEWMessage sample_config sample_runtime sample_eew ! 5 =
     eew_area_detail
       (join newline (map (eew_area_line sample_runtime) (take 15 sample_areas)))
       ('' '' @ ja_other @ ''1'' @ ja_regions) \<and>
   eew_cancelled (sample_eew\<lparr>eew_cancelled := True\<rparr>) \<and>
   list_all (\<lambda>b. \<not> is_area_detail b)
     (formatEEWMessage sample_config sample_runtime (sample_eew\<lparr>eew_cancelled := True\<rparr>))"
  using eew_area_detail_cap [of sample_eew sample_areas sample_config sample_runtime]
    eew_area_detail_cap [of "sample_eew\<lparr>eew_cancelled := True\<rparr>" sample_areas sample_config
      sample_runtime]
  by (simp add: sample_eew_length list_all_iff)
    (simp add: sample_eew_def sample_areas_def showNat.simps)

subsection \<open>Truthiness of the predicted bounds\<close>

text \<open>
  C10. In an EEW area line a lower bound \<open>scaleFrom\<close> that is 0 or absent renders the
  "predicted intensity unknown" placeholder, not the label of scale 0, and an upper
  bound \<open>scaleTo\<close> that is 0, absent or equal to \<open>scaleFrom\<close> gives no range suffix; the
  rendered area block consists of these lines.
\<close>

theorem eew_zero_bound_is_absent:
  "(scaleFrom area = None \<or> scaleFrom area = Some 0 \<longrightarrow>
      eew_intensityFrom area = ja_predicted_shindo_unknown \<and>
      eew_area_line rt area =
        ''*'' @ eew_area_name area @ ''*: '' @ ja_predicted_shindo_unknown @
        eew_intensityTo area @ eew_arrivalTime rt area) \<and>
   ja_predicted_shindo_unknown \<noteq> intensityToString 0 \<and>
   (scaleFrom area = Some s \<and> s \<noteq> 0 \<longrightarrow> eew_intensityFrom area = intensityToString s) \<and>
   (scaleTo area = None \<or> scaleTo area = Some 0 \<or> scaleTo area = scaleFrom area \<longrightarrow>
      eew_intensityTo area = [] \<and>
      eew_area_line rt area =
        ''*'' @ eew_area_name area @ ''*: '' @ eew_intensityFrom area @ eew_arrivalTime rt area) \<and>
   (\<not> eew_cancelled eew \<and> eew_areas eew = Some areas \<and> areas \<noteq> [] \<longrightarrow>
      formatEEWMessage config rt eew ! (length (formatEEWMessage config rt eew) - 3) =
        eew_area_detail (join newline (map (eew_area_line rt) (take 15 areas)))
          (eew_remaining areas))"
proof -
  have "ja_predicted_shindo_unknown \<noteq> intensityToString 0"
    by (simp add: intensityToString_def INTENSITY_MAP_def ja_defs)
  then show ?thesis
    using formatEEWMessage_area_block [of eew areas config rt]
    by (auto simp add: eew_intensityFrom_def eew_intensityTo_def eew_area_line_def
        split: option.splits)
qed

theorem eew_zero_bound_is_absent_witness:
  "scaleFrom (sample_area ''a'') = Some 0 \<and>
   eew_area_line sample_runtime (sample_area ''a'') =
     ''*a*: '' @ ja_predicted_shindo_unknown @ ja_range_mark @ ja_shindo @ ''5'' @ ja_weak \<and>
   eew_area_line sample_runtime (sample_area ''a''\<lparr>scaleTo := Some 0\<rparr>) =
     ''*a*: '' @ ja_predicted_shindo_unknown \<and>
   eew_area_line sample_runtime (sample_area ''a''\<lparr>scaleFrom := Some 45, scaleTo := Some 45\<rparr>) =
     ''*a*: '' @ ja_shindo @ ''5'' @ ja_weak \<and>
   eew_area_line sample_runtime (sample_area ''a''\<lparr>scaleFrom := None, scaleTo := None\<rparr>) =
     ''*a*: '' @ ja_predicted_shindo_unknown \<and>
   formatEEWMessage sample_config sample_runtime sample_eew ! 5 =
     eew_area_detail
       (join newline (map (eew_area_line sample_runtime) (take 15 sample_areas)))
       (eew_remaining sample_areas)"
  using eew_zero_bound_is_absent [of "sample_area ''a''" sample_runtime 45 sample_eew
      sample_areas sample_config]
    eew_zero_bound_is_absent [of "sample_area ''a''\<lparr>scaleTo := Some 0\<rparr>" sample_runtime 45
      sample_eew sample_areas sample_config]
    eew_zero_bound_is_absent [of "sample_area ''a''\<lparr>scaleFrom := Some 45, scaleTo := Some 45\<rparr>"
      sample_runtime 45 sample_eew sample_areas sample_config]
    eew_zero_bound_is_absent [of "sample_area ''a''\<lparr>scaleFrom := None, scaleTo := None\<rparr>"
      sample_runtime 45 sample_eew sample_areas sample_config]
  by (simp add: sample_eew_block_5)
    (simp add: sample_area_def eew_intensityTo_def eew_intensityFrom_def eew_arrivalTime_def
      intensityToString_def INTENSITY_MAP_def)

section \<open>Properties of the orchestrator and the stream client\<close>

lemma try_catch_returns:
  assumes "\<And>e w'. fst (handler e w') = Inr ()"
  shows "fst (try_catch r handler) = Inr ()"
  using assms by (cases r) (auto simp add: try_catch_def split: sum.splits)

lemma main_quake_handler_returns:
  "fst (main_quake_handler logger config rt slack faults quake w) = Inr ()"
  unfolding main_quake_handler_def by (rule try_catch_returns) (simp add: returns_def)

lemma main_tsunami_handler_returns:
  "fst (main_tsunami_handler logger config rt slack faults tsunami w) = Inr ()"
  unfolding main_tsunami_handler_def by (rule try_catch_returns) (simp add: returns_def)

lemma main_eew_handler_returns:
  "fst (main_eew_handler logger config rt slack faults eew w) = Inr ()"
  unfolding main_eew_handler_def by (rule try_catch_returns) (simp add: returns_def)

lemma guarded_call_returns:
  "fst (guarded_call logger message handler faults data w) = Inr ()"
  unfolding guarded_call_def
  by (cases handler) (auto simp add: returns_def intro: try_catch_returns)

lemma dispatch_returns: "fst (dispatch logger service frame w) = Inr ()"
  by (cases frame)
    (simp_all add: listener_551_def listener_552_def listener_556_def Let_def
      guarded_call_returns)

lemma dispatch_all_returns: "fst (dispatch_all logger service frames w) = Inr ()"
proof (induction frames arbitrary: w)
  case Nil
  then show ?case
    by (simp add: returns_def)
next
  case (Cons frame frames)
  obtain w' where "dispatch logger service frame w = (Inr (), w')"
    using dispatch_returns [of logger service frame w]
    by (cases "dispatch logger service frame w") auto
  then show ?case
    using Cons by (simp add: and_then_def)
qed

text \<open>An ERROR line passes every logger: its level is the lowest.\<close>

lemma shouldLog_ERROR: "shouldLog logger ERROR"
  by (simp add: shouldLog_def)

lemma main_quake_handler_catch:
  assumes "main_quake_body logger config rt slack faults quake w = (Inl e, w')"
  shows "main_quake_handler logger config rt slack faults quake w =
     (Inr (),
      if instanceof_Error e
      then w'\<lparr>console := console w' @ [(ERROR, ''Failed to process earthquake information'')]\<rparr>
      else w')"
  using assms
  by (simp add: main_quake_handler_def try_catch_def returns_def logger_log_def shouldLog_ERROR)

lemma main_tsunami_handler_catch:
  assumes "main_tsunami_body logger config rt slack faults tsunami w = (Inl e, w')"
  shows "main_tsunami_handler logger config rt slack faults tsunami w =
     (Inr (),
      if instanceof_Error e
      then w'\<lparr>console := console w' @ [(ERROR, ''Failed to process tsunami information'')]\<rparr>
      else w')"
  using assms
  by (simp add: main_tsunami_handler_def try_catch_def returns_def logger_log_def
      shouldLog_ERROR)

lemma main_eew_handler_catch:
  assumes "main_eew_body logger config rt slack faults eew w = (Inl e, w')"
  shows "main_eew_handler logger config rt slack faults eew w =
     (Inr (),
      if instanceof_Error e
      then w'\<lparr>console := console w' @ [(ERROR, ''Failed to process EEW information'')]\<rparr>
      else w')"
  using assms
  by (simp add: main_eew_handler_def try_catch_def returns_def logger_log_def shouldLog_ERROR)

lemma posted_logger_log: "posted (logger_log logger level message w) = posted w"
  by (simp add: logger_log_def)

lemma sendMessage_posted:
  "posted (snd (sendMessage logger config slack blocks w)) = posted w @ [blocks]"
  by (auto simp add: sendMessage_def try_catch_def throw_def returns_def Let_def
      posted_logger_log split: sum.splits thrown.splits)

lemma main_tsunami_handler_posted:
  "posted (snd (main_tsunami_handler logger config rt slack no_faults tsunami w)) =
     posted w @ [formatTsunamiMessage config rt tsunami]"
  using sendMessage_posted [of logger config slack "formatTsunamiMessage config rt tsunami"
      "logger_log logger INFO ''Tsunami information received'' w"]
  by (cases "sendMessage logger config slack (formatTsunamiMessage config rt tsunami)
        (logger_log logger INFO ''Tsunami information received'' w)")
    (auto simp add: main_tsunami_handler_def main_tsunami_body_def try_catch_def and_then_def
      evaluate_def no_faults_def returns_def Let_def posted_logger_log split: sum.splits)

lemma main_service_handlers:
  "quakeHandler (main_service logger config rt slack) =
     Some (main_quake_handler logger config rt slack) \<and>
   tsunamiHandler (main_service logger config rt slack) =
     Some (main_tsunami_handler logger config rt slack) \<and>
   eewHandler (main_service logger config rt slack) =
     Some (main_eew_handler logger config rt slack)"
  by (simp add: main_service_def new_P2PQuakeService_def onQuake_def onTsunami_def onEEW_def)

lemma guarded_call_handler:
  assumes "fst (h faults data w) = Inr ()"
  shows "guarded_call logger message (Some h) faults data w = h faults data w"
  using assms by (cases "h faults data w") (simp add: guarded_call_def try_catch_def)

lemma dispatch_tsunami_posted:
  "posted (snd (dispatch logger (main_service logger config rt slack)
      (Frame552 no_faults tsunami) w)) =
     posted w @ [formatTsunamiMessage config rt tsunami]"
  by (simp add: listener_552_def Let_def main_service_handlers guarded_call_handler
      main_tsunami_handler_returns main_tsunami_handler_posted posted_logger_log)

lemma dispatch_all_two:
  "dispatch_all logger service [f1, f2] w =
     dispatch logger service f2 (snd (dispatch logger service f1 w))"
proof -
  obtain w1 where 1: "dispatch logger service f1 w = (Inr (), w1)"
    using dispatch_returns [of logger service f1 w]
    by (cases "dispatch logger service f1 w") auto
  obtain w2 where 2: "dispatch logger service f2 w1 = (Inr (), w2)"
    using dispatch_returns [of logger service f2 w1]
    by (cases "dispatch logger service f2 w1") auto
  show ?thesis
    by (simp add: 1 2 and_then_def returns_def)
qed

lemma quake_then_tsunami:
  "posted (snd (dispatch_all logger (main_service logger config rt slack)
      [Frame551 faults quake, Frame552 no_faults tsunami] w)) =
   posted (snd (dispatch logger (main_service logger config rt slack)
      (Frame551 faults quake) w)) @
     [formatTsunamiMessage config rt tsunami]"
  by (subst dispatch_all_two) (rule dispatch_tsunami_posted)

text \<open>A fault at any stage the body reaches, the send included, is thrown by the body.\<close>

lemma main_quake_body_throws:
  "(faults Classification = Some e \<longrightarrow>
      fst (main_quake_body logger config rt slack faults quake w) = Inl e) \<and>
   (faults Classification = None \<and> faults Filtering = Some e \<longrightarrow>
      fst (main_quake_body logger config rt slack faults quake w) = Inl e) \<and>
   (faults Classification = None \<and> faults Filtering = None \<and>
    shouldNotify (maxScale (earthquake quake)) (minIntensity config) \<and>
    faults Formatting = Some e \<longrightarrow>
      fst (main_quake_body logger config rt slack faults quake w) = Inl e) \<and>
   (faults Classification = None \<and> faults Filtering = None \<and>
    shouldNotify (maxScale (earthquake quake)) (minIntensity config) \<and>
    faults Formatting = None \<and>
    postMessage slack (formatQuakeMessage config rt quake) = Inl e \<longrightarrow>
      fst (main_quake_body logger config rt slack faults quake w) = Inl e)"
  by (simp add: main_quake_body_def and_then_def evaluate_def throw_def returns_def Let_def
      sendMessage_def try_catch_def)

subsection \<open>Fault containment\<close>

text \<open>
  C2, as the spec states it, fails where it says that every value thrown inside a
  handler is logged: the catch blocks log under \<open>error instanceof Error\<close> only. Here
  the chat client rejects with a value that is not an Error; the quake handler returns
  normally and the console holds no ERROR line.
\<close>

theorem handler_fault_counterexample:
  "main_quake_body sample_logger sample_config sample_runtime
     (rejecting_slack (NonError ''rejected'')) no_faults sample_quake empty_world =
     (Inl (NonError ''rejected''),
      \<lparr>console = [(INFO, ''Earthquake information received'')],
       posted = [formatQuakeMessage sample_config sample_runtime sample_quake]\<rparr>) \<and>
   main_quake_handler sample_logger sample_config sample_runtime
     (rejecting_slack (NonError ''rejected'')) no_faults sample_quake empty_world =
     (Inr (),
      \<lparr>console = [(INFO, ''Earthquake information received'')],
       posted = [formatQuakeMessage sample_config sample_runtime sample_quake]\<rparr>)"
  by (simp add: main_quake_handler_def main_quake_body_def sendMessage_def try_catch_def
      and_then_def evaluate_def no_faults_def throw_def returns_def logger_log_def
      shouldLog_def sample_logger_def new_Logger_def rejecting_slack_def shouldNotify_def
      empty_world_def Let_def)
    (simp add: sample_quake_def sample_config_def)

text \<open>
  C2, amended. A value thrown inside a registered handler, at any stage of its body
  (classification, filtering, formatting or send, each of which makes the body throw),
  is caught by the handler's own catch block; it is logged at level ERROR when it is
  an Error instance; the handler, the listener that calls it and the dispatch of any
  sequence of frames return normally. Consequently, whatever fault the processing of
  a quake event meets, a tsunami event dispatched after it is formatted and handed to
  the chat client.
\<close>

theorem handler_fault_containment:
  "fst (main_quake_handler logger config rt slackService faults quake w) = Inr () \<and>
   fst (main_tsunami_handler logger config rt slackService faults tsunami w) = Inr () \<and>
   fst (main_eew_handler logger config rt slackService faults eew w) = Inr () \<and>
   (main_quake_body logger config rt slackService faults quake w = (Inl e, w') \<longrightarrow>
      main_quake_handler logger config rt slackService faults quake w =
        (Inr (),
         if instanceof_Error e
         then w'\<lparr>console :=
                   console w' @ [(ERROR, ''Failed to process earthquake information'')]\<rparr>
         else w')) \<and>
   (main_tsunami_body logger config rt slackService faults tsunami w = (Inl e, w') \<longrightarrow>
      main_tsunami_handler logger config rt slackService faults tsunami w =
        (Inr (),
         if instanceof_Error e
         then w'\<lparr>console :=
                   console w' @ [(ERROR, ''Failed to process tsunami information'')]\<rparr>
         else w')) \<and>
   (main_eew_body logger config rt slackService faults eew w = (Inl e, w') \<longrightarrow>
      main_eew_handler logger config rt slackService faults eew w =
        (Inr (),
         if instanceof_Error e
         then w'\<lparr>console := console w' @ [(ERROR, ''Failed to process EEW information'')]\<rparr>
         else w')) \<and>
   (faults Classification = Some e \<longrightarrow>
      fst (main_quake_body logger config rt slackService faults quake w) = Inl e) \<and>
   (faults Classification = None \<and> faults Filtering = Some e \<longrightarrow>
      fst (main_quake_body logger config rt slackService faults quake w) = Inl e) \<and>
   (faults Classification = None \<and> faults Filtering = None \<and>
    shouldNotify (maxScale (earthquake quake)) (minIntensity config) \<and>
    faults Formatting = Some e \<longrightarrow>
      fst (main_quake_body logger config rt slackService faults quake w) = Inl e) \<and>
   (faults Classification = None \<and> faults Filtering = None \<and>
    shouldNotify (maxScale (earthquake quake)) (minIntensity config) \<and>
    faults Formatting = None \<and>
    postMessage slackService (formatQuakeMessage config rt quake) = Inl e \<longrightarrow>
      fst (main_quake_body logger config rt slackService faults quake w) = Inl e) \<and>
   fst (dispatch logger (main_service logger config rt slackService) frame w) = Inr () \<and>
   fst (dispatch_all logger (main_service logger config rt slackService) frames w) = Inr () \<and>
   posted (snd (dispatch_all logger (main_service logger config rt slackService)
      [Frame551 faults quake, Frame552 no_faults tsunami] w)) =
     posted (snd (dispatch logger (main_service logger config rt slackService)
        (Frame551 faults quake) w)) @
     [formatTsunamiMessage config rt tsunami]"
  using main_quake_handler_returns main_tsunami_handler_returns main_eew_handler_returns
    main_quake_handler_catch [of logger config rt slackService faults quake w e w']
    main_tsunami_handler_catch [of logger config rt slackService faults tsunami w e w']
    main_eew_handler_catch [of logger config rt slackService faults eew w e w']
    main_quake_body_throws [of faults e logger config rt slackService quake w]
    dispatch_returns dispatch_all_returns
    quake_then_tsunami [of logger config rt slackService faults quake tsunami w]
  by simp

lemma sample_quake_formatting_fault:
  "main_quake_body sample_logger sample_config sample_runtime accepting_slack
     (formatting_fault e) sample_quake empty_world =
     (Inl e, \<lparr>console = [(INFO, ''Earthquake information received'')], posted = []\<rparr>)"
  by (simp add: main_quake_body_def and_then_def evaluate_def formatting_fault_def throw_def
      returns_def logger_log_def shouldLog_def sample_logger_def new_Logger_def
      shouldNotify_def empty_world_def Let_def sample_quake_def sample_config_def)

theorem handler_fault_containment_witness:
  "main_quake_body sample_logger sample_config sample_runtime accepting_slack
     (formatting_fault (Error ''boom'')) sample_quake empty_world =
     (Inl (Error ''boom''),
      \<lparr>console = [(INFO, ''Earthquake information received'')], posted = []\<rparr>) \<and>
   main_quake_handler sample_logger sample_config sample_runtime accepting_slack
     (formatting_fault (Error ''boom'')) sample_quake empty_world =
     (Inr (),
      \<lparr>console =
         [(INFO, ''Earthquake information received''),
          (ERROR, ''Failed to process earthquake information'')],
       posted = []\<rparr>) \<and>
   posted (snd (dispatch_all sample_logger
      (main_service sample_logger sample_config sample_runtime accepting_slack)
      [Frame551 (formatting_fault (Error ''boom'')) sample_quake,
       Frame552 no_faults sample_tsunami] empty_world)) =
     [formatTsunamiMessage sample_config sample_runtime sample_tsunami]"
proof -
  have body: "main_quake_body sample_logger sample_config sample_runtime accepting_slack
      (formatting_fault (Error ''boom'')) sample_quake empty_world =
      (Inl (Error ''boom''),
       \<lparr>console = [(INFO, ''Earthquake information received'')], posted = []\<rparr>)"
    by (rule sample_quake_formatting_fault)
  note c = handler_fault_containment [where logger = sample_logger and config = sample_config
      and rt = sample_runtime and slackService = accepting_slack
      and faults = "formatting_fault (Error ''boom'')" and quake = sample_quake
      and w = empty_world and tsunami = sample_tsunami and e = "Error ''boom''"
      and w' = "\<lparr>console = [(INFO, ''Earthquake information received'')], posted = []\<rparr>"]
  have handler: "main_quake_handler sample_logger sample_config sample_runtime accepting_slack
      (formatting_fault (Error ''boom'')) sample_quake empty_world =
      (Inr (),
       \<lparr>console =
          [(INFO, ''Earthquake information received''),
           (ERROR, ''Failed to process earthquake information'')],
        posted = []\<rparr>)"
    using c body by simp
  have "posted (snd (dispatch sample_logger
      (main_service sample_logger sample_config sample_runtime accepting_slack)
      (Frame551 (formatting_fault (Error ''boom'')) sample_quake) empty_world)) = []"
    by (simp add: listener_551_def Let_def main_service_handlers guarded_call_handler
        main_quake_handler_returns)
      (simp add: main_quake_handler_def main_quake_body_def try_catch_def and_then_def
        evaluate_def formatting_fault_def throw_def returns_def logger_log_def shouldLog_def
        sample_logger_def new_Logger_def shouldNotify_def empty_world_def Let_def
        sample_quake_def sample_config_def)
  then show ?thesis
    using c body handler by simp
qed

subsection \<open>Cancelled tsunami information\<close>

lemma formatTsunamiMessage_cancelled:
  assumes "tsunami_cancelled tsunami"
  shows "formatTsunamiMessage config rt tsunami =
     take 3 (formatTsunamiMessage config rt (tsunami\<lparr>tsunami_cancelled := False\<rparr>)) @
     [tsunami_cancel_notice] @
     drop 3 (formatTsunamiMessage config rt (tsunami\<lparr>tsunami_cancelled := False\<rparr>))"
  using assms by (simp add: formatTsunamiMessage_blocks tsunami_footer_def)

text \<open>
  C8. A cancelled tsunami event gets the document of the same event not cancelled
  (header, alert line, divider, one line per forecast area, divider, footer) with the
  cancellation notice inserted after the first three blocks, that is right after the
  header, the alert line and the divider and before the area information. The tsunami
  handler consults no threshold: whatever the configuration, the document of every
  tsunami event is formatted and handed to the chat client.
\<close>

theorem tsunami_cancelled_notice:
  "(tsunami_cancelled tsunami \<longrightarrow>
      formatTsunamiMessage config rt tsunami =
        take 3 (formatTsunamiMessage config rt (tsunami\<lparr>tsunami_cancelled := False\<rparr>)) @
        [tsunami_cancel_notice] @
        drop 3 (formatTsunamiMessage config rt (tsunami\<lparr>tsunami_cancelled := False\<rparr>)) \<and>
      take 4 (formatTsunamiMessage config rt tsunami) =
        [tsunami_header config, tsunami_alert, Divider, tsunami_cancel_notice]) \<and>
   (tsunami_cancelled tsunami \<and> tsunami_areas tsunami = Some areas \<and> areas \<noteq> [] \<longrightarrow>
      formatTsunamiMessage config rt tsunami =
        [tsunami_header config, tsunami_alert, Divider, tsunami_cancel_notice,
         tsunami_forecast (join newline (map tsunami_area_line areas)),
         Divider, tsunami_footer rt tsunami]) \<and>
   posted (snd (main_tsunami_handler logger config rt slackService no_faults tsunami w)) =
     posted w @ [formatTsunamiMessage config rt tsunami] \<and>
   posted (snd (dispatch logger (main_service logger config rt slackService)
      (Frame552 no_faults tsunami) w)) =
     posted w @ [formatTsunamiMessage config rt tsunami]"
  using formatTsunamiMessage_cancelled [of tsunami config rt]
    main_tsunami_handler_posted [of logger config rt slackService tsunami w]
    dispatch_tsunami_posted [of logger config rt slackService tsunami w]
  by (simp add: formatTsunamiMessage_blocks)

theorem tsunami_cancelled_notice_witness:
  "tsunami_cancelled sample_tsunami \<and>
   formatTsunamiMessage sample_config sample_runtime sample_tsunami =
     [tsunami_header sample_config, tsunami_alert, Divider, tsunami_cancel_notice,
      tsunami_forecast
        (''*Noto*: '' @ ja_tsunami_warning @ '' '' @ ja_warning_sign @ '' *'' @
         ja_evacuate_now @ ''*''),
      Divider, tsunami_footer sample_runtime sample_tsunami] \<and>
   posted (snd (main_tsunami_handler sample_logger (sample_config\<lparr>minIntensity := 70\<rparr>)
      sample_runtime accepting_slack no_faults sample_tsunami empty_world)) =
     [formatTsunamiMessage (sample_config\<lparr>minIntensity := 70\<rparr>) sample_runtime
        sample_tsunami]"
proof -
  have areas: "tsunami_cancelled sample_tsunami \<and>
      tsunami_areas sample_tsunami =
        Some [\<lparr>tsunami_area_name = ''Noto'', grade = Warning, immediate = True\<rparr>]"
    by (simp add: sample_tsunami_def)
  have line: "join newline
      (map tsunami_area_line
        [\<lparr>tsunami_area_name = ''Noto'', grade = Warning, immediate = True\<rparr>]) =
      ''*Noto*: '' @ ja_tsunami_warning @ '' '' @ ja_warning_sign @ '' *'' @
      ja_evacuate_now @ ''*''"
    by (simp add: tsunami_area_line_def)
  have "formatTsunamiMessage sample_config sample_runtime sample_tsunami =
      [tsunami_header sample_config, tsunami_alert, Divider, tsunami_cancel_notice,
       tsunami_forecast
         (join newline
           (map tsunami_area_line
             [\<lparr>tsunami_area_name = ''Noto'', grade = Warning, immediate = True\<rparr>])),
       Divider, tsunami_footer sample_runtime sample_tsunami]"
    using areas
      tsunami_cancelled_notice [where tsunami = sample_tsunami
        and config = sample_config and rt = sample_runtime
        and areas = "[\<lparr>tsunami_area_name = ''Noto'', grade = Warning, immediate = True\<rparr>]"
        and logger = sample_logger and slackService = accepting_slack and w = empty_world]
    by blast
  then have document: "formatTsunamiMessage sample_config sample_runtime sample_tsunami =
      [tsunami_header sample_config, tsunami_alert, Divider, tsunami_cancel_notice,
       tsunami_forecast
         (''*Noto*: '' @ ja_tsunami_warning @ '' '' @ ja_warning_sign @ '' *'' @
          ja_evacuate_now @ ''*''),
       Divider, tsunami_footer sample_runtime sample_tsunami]"
    unfolding line .
  have "posted (snd (main_tsunami_handler sample_logger (sample_config\<lparr>minIntensity := 70\<rparr>)
      sample_runtime accepting_slack no_faults sample_tsunami empty_world)) =
      posted empty_world @
      [formatTsunamiMessage (sample_config\<lparr>minIntensity := 70\<rparr>) sample_runtime
         sample_tsunami]"
    using tsunami_cancelled_notice [where tsunami = sample_tsunami
        and config = "sample_config\<lparr>minIntensity := 70\<rparr>" and rt = sample_runtime
        and areas = "[\<lparr>tsunami_area_name = ''Noto'', grade = Warning, immediate = True\<rparr>]"
        and logger = sample_logger and slackService = accepting_slack and w = empty_world]
    by blast
  then have sent: "posted (snd (main_tsunami_handler sample_logger
      (sample_config\<lparr>minIntensity := 70\<rparr>) sample_runtime accepting_slack no_faults
      sample_tsunami empty_world)) =
      [formatTsunamiMessage (sample_config\<lparr>minIntensity := 70\<rparr>) sample_runtime
         sample_tsunami]"
    by (simp add: empty_world_def)
  show ?thesis
    using areas document sent by blast
qed

end
